(* ===== verification/Prelude.thy ===== *)
theory Prelude
  imports Main "HOL-Library.Sublist"
begin

text \<open>
  Shared vocabulary of the MakeCloud development: the names of the model's
  types, the lemma collections the component theories fill, and generic
  facts on lists that several components use (removing the element a
  resolved network call occupied, counting requests of one kind, transcript
  prefixes).
\<close>

named_theorems ui_simps
  "how a state update of the component changes each field of the UI state"
named_theorems js_simps
  "evaluation of the JavaScript operators the component applies to values"

type_synonym transcript = "string list"

text \<open>
  Removing the \<open>i\<close>-th element of a list: a pending network call that has
  resolved leaves the list of calls in flight.
\<close>

definition remove_nth :: "nat \<Rightarrow> 'a list \<Rightarrow> 'a list" where
  "remove_nth i xs = take i xs @ drop (Suc i) xs"

lemma length_remove_nth [simp]:
  "i < length xs \<Longrightarrow> length (remove_nth i xs) = length xs - 1"
  by (simp add: remove_nth_def)

lemma set_remove_nth_subset: "set (remove_nth i xs) \<subseteq> set xs"
  by (auto simp: remove_nth_def dest: in_set_takeD in_set_dropD)

lemma remove_nth_0 [simp]: "remove_nth 0 (x # xs) = xs"
  by (simp add: remove_nth_def)

lemma remove_nth_single [simp]: "remove_nth 0 [x] = []"
  by (simp add: remove_nth_def)

lemma prefix_append_right [intro, simp]: "prefix xs (xs @ ys)"
  by simp

lemma prefix_trans_append [intro]: "prefix xs ys \<Longrightarrow> prefix xs (ys @ zs)"
  by (metis prefix_append prefix_order.trans)

lemma filter_remove_nth_subset:
  "set (filter P (remove_nth i xs)) \<subseteq> set (filter P xs)"
  using set_remove_nth_subset by fastforce


lemma distinct_remove_nth:
  assumes "distinct xs" "i < length xs"
  shows "distinct (remove_nth i xs) \<and> xs ! i \<notin> set (remove_nth i xs)"
proof -
  have "distinct (take i xs @ xs ! i # drop (Suc i) xs)"
    using assms id_take_nth_drop by metis
  then show ?thesis by (auto simp: remove_nth_def)
qed

lemma prefix_snoc_neq: "prefix as ys \<Longrightarrow> as \<noteq> ys @ [x]"
  using prefix_length_le by fastforce

lemma in_set_map_filter: "y \<in> set (List.map_filter f xs) \<longleftrightarrow> (\<exists>x \<in> set xs. f x = Some y)"
  by (induction xs) (auto simp: List.map_filter_simps split: option.splits)

end
