(* ===== verification/Js_Value.thy ===== *)
theory Js_Value
  imports Prelude
begin

text \<open>
  The fragment of JavaScript the component's handler relies on, written out
  from the ECMAScript semantics: the JSON values \<open>response.json()\<close> can
  produce, the exceptions the handler can see, \<open>String.prototype.trim\<close>
  as used in a truth test, the template-literal conversion \<open>${v}\<close>, and
  the property reads \<open>v.length\<close> and \<open>v[i]\<close> on a decoded value.
  Characters are Isabelle's 8-bit \<open>char\<close>, read as the Latin-1 code units
  of a JavaScript string; JSON numbers are integers.
\<close>

datatype jsval =
    JNull
  | JBool bool
  | JNum int
  | JStr string
  | JArr "jsval list"
  | JObj "(string \<times> jsval) list"

datatype js_error =
    TypeError string
  | SyntaxError string
  | Error string

subsection \<open>Decimal printing of numbers\<close>

definition digit_char :: "nat \<Rightarrow> char" where
  "digit_char d = ''0123456789'' ! d"

fun nat_to_str :: "nat \<Rightarrow> string" where
  "nat_to_str n =
     (if n < 10 then [digit_char n] else nat_to_str (n div 10) @ [digit_char (n mod 10)])"

declare nat_to_str.simps [simp del]

definition int_to_str :: "int \<Rightarrow> string" where
  "int_to_str i = (if i < 0 then ''-'' @ nat_to_str (nat (- i)) else nat_to_str (nat i))"

subsection \<open>String conversion, as in a template literal\<close>

fun join_with :: "string \<Rightarrow> string list \<Rightarrow> string" where
  "join_with sep [] = []"
| "join_with sep [x] = x"
| "join_with sep (x # y # zs) = x @ sep @ join_with sep (y # zs)"

text \<open>
  \<open>ToString\<close>: an array prints as its elements joined by commas, where a
  \<open>null\<close> element prints as the empty string; every plain object prints as
  \<open>[object Object]\<close>.
\<close>

fun js_to_string :: "jsval \<Rightarrow> string" where
  "js_to_string JNull = ''null''"
| "js_to_string (JBool b) = (if b then ''true'' else ''false'')"
| "js_to_string (JNum n) = int_to_str n"
| "js_to_string (JStr s) = s"
| "js_to_string (JArr xs) =
     join_with '','' (map (\<lambda>x. case x of JNull \<Rightarrow> [] | _ \<Rightarrow> js_to_string x) xs)"
| "js_to_string (JObj kvs) = ''[object Object]''"

text \<open>A property read that finds nothing yields \<open>undefined\<close>, here \<open>None\<close>.\<close>

definition js_template :: "jsval option \<Rightarrow> string" where
  "js_template v = (case v of None \<Rightarrow> ''undefined'' | Some x \<Rightarrow> js_to_string x)"

text \<open>\<open>${error}\<close> for an exception prints its name, a colon and its message.\<close>

fun js_error_str :: "js_error \<Rightarrow> string" where
  "js_error_str (TypeError m) = ''TypeError: '' @ m"
| "js_error_str (SyntaxError m) = ''SyntaxError: '' @ m"
| "js_error_str (Error m) = ''Error: '' @ m"

subsection \<open>Whitespace and \<open>trim\<close>\<close>

text \<open>
  The white space and line terminators of ECMAScript in the Latin-1 range:
  tab, line feed, vertical tab, form feed, carriage return, space and the
  no-break space.
\<close>

definition js_whitespace :: "char \<Rightarrow> bool" where
  "js_whitespace c \<longleftrightarrow> of_char c \<in> {9::nat, 10, 11, 12, 13, 32, 160}"

definition js_trim :: "string \<Rightarrow> string" where
  "js_trim s = rev (dropWhile js_whitespace (rev (dropWhile js_whitespace s)))"

subsection \<open>Property reads\<close>

text \<open>
  \<open>v.length\<close>: a string or an array has its length; a read on \<open>null\<close> throws
  a \<open>TypeError\<close>; a boolean or a number has no such property (\<open>undefined\<close>,
  \<open>None\<close>). An object's \<open>length\<close> is its member of that name when the member
  is a number; an object whose \<open>length\<close> member is not a number is read as
  having none (the model does not carry \<open>ToNumber\<close> on strings). Of
  duplicate keys in a parsed object the last one counts, as in
  \<open>JSON.parse\<close>, hence the lookup in the reversed member list.
\<close>

fun js_length :: "jsval \<Rightarrow> js_error + int option" where
  "js_length JNull = Inl (TypeError ''Cannot read properties of null (reading 'length')'')"
| "js_length (JStr s) = Inr (Some (int (length s)))"
| "js_length (JArr xs) = Inr (Some (int (length xs)))"
| "js_length (JObj kvs) =
     Inr (case map_of (rev kvs) ''length'' of Some (JNum n) \<Rightarrow> Some n | _ \<Rightarrow> None)"
| "js_length (JBool b) = Inr None"
| "js_length (JNum n) = Inr None"

text \<open>
  \<open>v[i]\<close>: an array element, a one-character string, an object member whose
  key is the decimal numeral, or \<open>undefined\<close>. The component reads an index
  only after \<open>v.length\<close> has been read without throwing, so \<open>v\<close> is never
  \<open>null\<close> there and the read never throws.
\<close>

fun js_index :: "jsval \<Rightarrow> nat \<Rightarrow> jsval option" where
  "js_index (JArr xs) i = (if i < length xs then Some (xs ! i) else None)"
| "js_index (JStr s) i = (if i < length s then Some (JStr [s ! i]) else None)"
| "js_index (JObj kvs) i = map_of (rev kvs) (nat_to_str i)"
| "js_index _ i = None"

text \<open>Comparisons with a number read as \<open>undefined\<close> are false (\<open>NaN\<close>).\<close>

definition js_less :: "int \<Rightarrow> int option \<Rightarrow> bool" where
  "js_less a b = (case b of None \<Rightarrow> False | Some n \<Rightarrow> a < n)"

text \<open>The question lists a well-behaved server returns: arrays of strings.\<close>

definition str_array :: "string list \<Rightarrow> jsval" where
  "str_array qs = JArr (map JStr qs)"

text \<open>
  The strings a value yields when it is read as the component reads a
  question list, by \<open>.length\<close> and \<open>[i]\<close> with each item used as a
  string: the elements of an array of strings, and the characters of a
  string, since indexing a string gives a one-character string.
\<close>

fun js_strings :: "jsval list \<Rightarrow> string list option" where
  "js_strings [] = Some []"
| "js_strings (JStr s # xs) = map_option (Cons s) (js_strings xs)"
| "js_strings (x # xs) = None"

fun js_items :: "jsval \<Rightarrow> string list option" where
  "js_items (JArr xs) = js_strings xs"
| "js_items (JStr s) = Some (map (\<lambda>c. [c]) s)"
| "js_items v = None"


subsection \<open>Facts the component proofs use\<close>

lemma dropWhile_all_iff:
  "(\<forall>c \<in> set (dropWhile P s). P c) \<longleftrightarrow> (\<forall>c \<in> set s. P c)"
  by (induction s) auto

lemma js_trim_Nil_iff [js_simps]:
  "js_trim s = [] \<longleftrightarrow> (\<forall>c \<in> set s. js_whitespace c)"
  by (simp add: js_trim_def dropWhile_eq_Nil_conv dropWhile_all_iff)

lemma js_length_str_array [simp, js_simps]:
  "js_length (str_array qs) = Inr (Some (int (length qs)))"
  by (simp add: str_array_def)

lemma js_index_str_array [simp, js_simps]:
  "js_index (str_array qs) i = (if i < length qs then Some (JStr (qs ! i)) else None)"
  by (simp add: str_array_def)

lemma js_strings_Some: "js_strings xs = Some qs \<longleftrightarrow> xs = map JStr qs"
proof (induction xs arbitrary: qs rule: js_strings.induct)
  case (2 s xs)
  then show ?case by (cases qs) auto
qed auto

lemma js_items_str_array [simp, js_simps]: "js_items (str_array qs) = Some qs"
  by (simp add: str_array_def js_strings_Some)

lemma js_items_read:
  assumes "js_items v = Some qs"
  shows "js_length v = Inr (Some (int (length qs))) \<and>
    js_index v i = (if i < length qs then Some (JStr (qs ! i)) else None)"
  using assms by (cases v) (auto simp: js_strings_Some)

lemma js_template_JStr [simp, js_simps]: "js_template (Some (JStr s)) = s"
  by (simp add: js_template_def)

lemma js_less_Some [simp, js_simps]: "js_less a (Some n) \<longleftrightarrow> a < n"
  by (simp add: js_less_def)

lemma js_less_None [simp, js_simps]: "\<not> js_less a None"
  by (simp add: js_less_def)

end
