(* ===== verification/Ui_State.thy ===== *)
theory Ui_State
  imports Js_Value
begin

text \<open>
  The state of the \<open>TerminalChatbot\<close> component
  (\<open>src/.history/app/(preview)/page_20250119073951.tsx\<close>, lines 13--22): one
  record field per \<open>useState\<close> hook, and the updates the handlers schedule.
  React keeps one queue of updates per hook and applies them in the order
  they were scheduled: a functional update (\<open>setLines(prev => ...)\<close>) sees the
  result of the updates queued before it, a plain value replaces the field.
  The updates of one handler segment are therefore applied as a left fold.
\<close>

record ui =
  lines :: "string list"
  input :: string
  isDarkMode :: bool
  resourceType :: string
  userResponses :: "string list"
  currentQuestionIndex :: nat
  questions :: jsval

definition welcome_line :: string where
  "welcome_line = ''MakeCloud: What cloud infrastructure are you working with today?''"

definition ui_init :: ui where
  "ui_init =
     \<lparr>lines = [welcome_line], input = [], isDarkMode = True, resourceType = [],
      userResponses = [], currentQuestionIndex = 0, questions = JArr []\<rparr>"

text \<open>One constructor per setter call the handlers make.\<close>

datatype update =
    AppendLine string        \<comment> \<open>\<open>setLines(prev => [...prev, l])\<close>\<close>
  | SetInput string          \<comment> \<open>\<open>setInput(v)\<close>\<close>
  | SetResourceType string   \<comment> \<open>\<open>setResourceType(v)\<close>\<close>
  | SetQuestions jsval       \<comment> \<open>\<open>setQuestions(v)\<close>\<close>
  | AppendResponse string    \<comment> \<open>\<open>setUserResponses(prev => [...prev, v])\<close>\<close>
  | IncQuestionIndex         \<comment> \<open>\<open>setCurrentQuestionIndex(prev => prev + 1)\<close>\<close>
  | ToggleDarkMode           \<comment> \<open>\<open>setIsDarkMode(prev => !prev)\<close>\<close>

fun apply_update :: "ui \<Rightarrow> update \<Rightarrow> ui" where
  "apply_update s (AppendLine l) = s\<lparr>lines := lines s @ [l]\<rparr>"
| "apply_update s (SetInput v) = s\<lparr>input := v\<rparr>"
| "apply_update s (SetResourceType v) = s\<lparr>resourceType := v\<rparr>"
| "apply_update s (SetQuestions v) = s\<lparr>questions := v\<rparr>"
| "apply_update s (AppendResponse v) = s\<lparr>userResponses := userResponses s @ [v]\<rparr>"
| "apply_update s IncQuestionIndex = s\<lparr>currentQuestionIndex := Suc (currentQuestionIndex s)\<rparr>"
| "apply_update s ToggleDarkMode = s\<lparr>isDarkMode := \<not> isDarkMode s\<rparr>"

definition apply_updates :: "update list \<Rightarrow> ui \<Rightarrow> ui" where
  "apply_updates us s = fold (\<lambda>u s. apply_update s u) us s"

text \<open>\<open>toggleTheme\<close> (line 121) and the input's \<open>onChange\<close> (line 218).\<close>

definition toggleTheme :: "update list" where
  "toggleTheme = [ToggleDarkMode]"

definition onChange :: "string \<Rightarrow> update list" where
  "onChange v = [SetInput v]"

text \<open>
  What an update list does to each field, as functions of the list: the
  lines appended, the answers appended, the number of index increments.
\<close>

fun appended_lines :: "update list \<Rightarrow> string list" where
  "appended_lines [] = []"
| "appended_lines (AppendLine l # us) = l # appended_lines us"
| "appended_lines (_ # us) = appended_lines us"

fun appended_responses :: "update list \<Rightarrow> string list" where
  "appended_responses [] = []"
| "appended_responses (AppendResponse v # us) = v # appended_responses us"
| "appended_responses (_ # us) = appended_responses us"

subsection \<open>Applying updates\<close>

lemma apply_updates_Nil [simp, ui_simps]: "apply_updates [] s = s"
  by (simp add: apply_updates_def)

lemma apply_updates_Cons [simp, ui_simps]:
  "apply_updates (u # us) s = apply_updates us (apply_update s u)"
  by (simp add: apply_updates_def)

lemma apply_updates_append [simp, ui_simps]:
  "apply_updates (us @ vs) s = apply_updates vs (apply_updates us s)"
  by (simp add: apply_updates_def)

lemma lines_apply_updates [ui_simps]:
  "lines (apply_updates us s) = lines s @ appended_lines us"
  by (induction us arbitrary: s rule: appended_lines.induct) auto

lemma userResponses_apply_updates [ui_simps]:
  "userResponses (apply_updates us s) = userResponses s @ appended_responses us"
  by (induction us arbitrary: s rule: appended_responses.induct) auto

end
