(* ===== verification/Gateway.thy ===== *)
theory Gateway
  imports Js_Value
begin

text \<open>
  The two outbound calls of \<open>handleExecute\<close>
  (\<open>src/.history/app/(preview)/page_20250119073951.tsx\<close>): the \<open>GET\<close> of the
  question list (lines 37--53) and the \<open>POST\<close> of the answers (lines 88--106).
  A request is data; what the network and the server answer is an explicit
  input of the model (\<open>fetch_outcome\<close>), so every answer the code can meet is
  a case of the definitions. \<open>encodeURIComponent\<close> is written out from
  ECMAScript (percent-encoding of the UTF-8 bytes of each Latin-1 code unit)
  together with the server's decoding (\<open>decodeURIComponent\<close> and the
  reading of one query parameter), and the two are proved inverse.
\<close>

definition questions_endpoint :: string where
  "questions_endpoint = ''https://cloudy-bitter-darkness-3933.fly.dev/get_info''"

definition submit_endpoint :: string where
  "submit_endpoint = ''http://localhost:5000/generate_script''"

subsection \<open>\<open>encodeURIComponent\<close>\<close>

definition hex_char :: "nat \<Rightarrow> char" where
  "hex_char d = ''0123456789ABCDEF'' ! d"

definition uri_unreserved :: "char \<Rightarrow> bool" where
  "uri_unreserved c \<longleftrightarrow>
     (let n = of_char c :: nat
      in (65 \<le> n \<and> n \<le> 90) \<or> (97 \<le> n \<and> n \<le> 122) \<or> (48 \<le> n \<and> n \<le> 57) \<or>
         c \<in> set ''-_.!~*'()'')"

definition pct_byte :: "nat \<Rightarrow> string" where
  "pct_byte b = [CHR ''%'', hex_char (b div 16), hex_char (b mod 16)]"

text \<open>A code unit below 128 is one UTF-8 byte; one from 128 to 255 is two.\<close>

definition utf8_bytes :: "nat \<Rightarrow> nat list" where
  "utf8_bytes c = (if c < 128 then [c] else [192 + c div 64, 128 + c mod 64])"

definition encode_char :: "char \<Rightarrow> string" where
  "encode_char c =
     (if uri_unreserved c then [c] else concat (map pct_byte (utf8_bytes (of_char c))))"

definition encodeURIComponent :: "string \<Rightarrow> string" where
  "encodeURIComponent s = concat (map encode_char s)"

text \<open>The server side: \<open>decodeURIComponent\<close> and UTF-8 decoding.\<close>

definition hex_val :: "char \<Rightarrow> nat option" where
  "hex_val c =
     (let n = of_char c :: nat
      in if 48 \<le> n \<and> n \<le> 57 then Some (n - 48)
         else if 65 \<le> n \<and> n \<le> 70 then Some (n - 55)
         else if 97 \<le> n \<and> n \<le> 102 then Some (n - 87)
         else None)"

fun pct_decode :: "string \<Rightarrow> nat list option" where
  "pct_decode [] = Some []"
| "pct_decode (c # cs) =
     (if c = CHR ''%'' then
        (case cs of
           h # l # rest \<Rightarrow>
             (case (hex_val h, hex_val l) of
                (Some a, Some b) \<Rightarrow> map_option (Cons (16 * a + b)) (pct_decode rest)
              | _ \<Rightarrow> None)
         | _ \<Rightarrow> None)
      else map_option (Cons (of_char c)) (pct_decode cs))"

fun utf8_decode :: "nat list \<Rightarrow> string option" where
  "utf8_decode [] = Some []"
| "utf8_decode (b # bs) =
     (if b < 128 then map_option (Cons (char_of b)) (utf8_decode bs)
      else if 192 \<le> b \<and> b < 196 then
        (case bs of
           b2 # rest \<Rightarrow>
             (if 128 \<le> b2 \<and> b2 < 192
              then map_option (Cons (char_of ((b - 192) * 64 + (b2 - 128)))) (utf8_decode rest)
              else None)
         | [] \<Rightarrow> None)
      else None)"

definition decodeURIComponent :: "string \<Rightarrow> string option" where
  "decodeURIComponent s = Option.bind (pct_decode s) utf8_decode"

text \<open>
  What the server reads from the URL: the query after the first \<open>?\<close>,
  split at \<open>&\<close>, the first pair whose key is the parameter's name, its
  value percent-decoded.
\<close>

fun split_on :: "char \<Rightarrow> string \<Rightarrow> string list" where
  "split_on d [] = [[]]"
| "split_on d (c # cs) =
     (if c = d then [] # split_on d cs
      else (case split_on d cs of [] \<Rightarrow> [[c]] | w # ws \<Rightarrow> (c # w) # ws))"

definition query_param :: "string \<Rightarrow> string \<Rightarrow> string option" where
  "query_param key url =
     (case dropWhile (\<lambda>c. c \<noteq> CHR ''?'') url of
        [] \<Rightarrow> None
      | q0 # q \<Rightarrow>
          (case find (\<lambda>kv. takeWhile (\<lambda>c. c \<noteq> CHR ''='') kv = key) (split_on CHR ''&'' q) of
             None \<Rightarrow> None
           | Some kv \<Rightarrow> decodeURIComponent (drop (Suc (length key)) kv)))"

subsection \<open>Requests\<close>

text \<open>
  \<open>GetInfo r\<close> is the \<open>GET\<close> for resource type \<open>r\<close>; \<open>GenerateScript r qs as\<close>
  the \<open>POST\<close> of the three fields. The question list is sent back as the value
  the server gave, whatever its shape.
\<close>

datatype request =
    GetInfo string
  | GenerateScript string jsval "string list"

datatype http_method = GET | POST

fun request_method :: "request \<Rightarrow> http_method" where
  "request_method (GetInfo r) = GET"
| "request_method (GenerateScript r qs as) = POST"

fun request_url :: "request \<Rightarrow> string" where
  "request_url (GetInfo r) = questions_endpoint @ ''?resource_type='' @ encodeURIComponent r"
| "request_url (GenerateScript r qs as) = submit_endpoint"

text \<open>The body \<open>JSON.stringify\<close> serialises, as the value it serialises.\<close>

fun request_body :: "request \<Rightarrow> jsval option" where
  "request_body (GetInfo r) = None"
| "request_body (GenerateScript r qs as) =
     Some (JObj [(''resource_type'', JStr r), (''questions'', qs), (''answers'', JArr (map JStr as))])"

subsection \<open>Responses\<close>

text \<open>
  A \<open>fetch\<close> either rejects (the browser's \<open>TypeError\<close>, with its message)
  or gives a response with a status and a body, which is either JSON text
  (its value) or not (the message \<open>response.json()\<close> rejects with).
\<close>

datatype fetch_outcome =
    TransportFailure string
  | HttpResponse int "string + jsval"

definition http_ok :: "int \<Rightarrow> bool" where
  "http_ok st \<longleftrightarrow> 200 \<le> st \<and> st \<le> 299"

text \<open>\<open>if (!response.ok) throw new Error(`HTTP error! Status: ${response.status}`)\<close>\<close>

fun check_ok :: "fetch_outcome \<Rightarrow> js_error + (string + jsval)" where
  "check_ok (TransportFailure m) = Inl (TypeError m)"
| "check_ok (HttpResponse st body) =
     (if http_ok st then Inr body
      else Inl (Error (''HTTP error! Status: '' @ int_to_str st)))"

text \<open>\<open>await response.json()\<close>\<close>

fun read_json :: "string + jsval \<Rightarrow> js_error + jsval" where
  "read_json (Inl m) = Inl (SyntaxError m)"
| "read_json (Inr v) = Inr v"

text \<open>The question fetch, lines 37--53: the status check, then the body.\<close>

definition fetch_questions :: "fetch_outcome \<Rightarrow> js_error + jsval" where
  "fetch_questions out = (case check_ok out of Inl e \<Rightarrow> Inl e | Inr b \<Rightarrow> read_json b)"

text \<open>The answer submission, lines 88--106: only the status is looked at.\<close>

definition submit_answers :: "fetch_outcome \<Rightarrow> js_error + unit" where
  "submit_answers out = (case check_ok out of Inl e \<Rightarrow> Inl e | Inr b \<Rightarrow> Inr ())"

text \<open>
  The older revision (\<open>page_20250119072805.tsx\<close>, lines 92--113) also reads
  the submission's body as JSON.
\<close>

definition submit_answers_v1 :: "fetch_outcome \<Rightarrow> js_error + jsval" where
  "submit_answers_v1 out = (case check_ok out of Inl e \<Rightarrow> Inl e | Inr b \<Rightarrow> read_json b)"


subsection \<open>The URL round trip\<close>

lemma hex_val_hex_char: "d < 16 \<Longrightarrow> hex_val (hex_char d) = Some d"
  by (auto simp: hex_char_def hex_val_def less_Suc_eq numeral_eq_Suc)

lemma pct_decode_pct_byte:
  assumes "b < 256"
  shows "pct_decode (pct_byte b @ rest) = map_option (Cons b) (pct_decode rest)"
proof -
  have "b div 16 < 16" "b mod 16 < 16" using assms by simp_all
  then show ?thesis
    by (simp add: pct_byte_def hex_val_hex_char)
qed


lemma uri_unreserved_ascii: "uri_unreserved c \<Longrightarrow> of_char c < (128::nat)"
  by (auto simp: uri_unreserved_def Let_def)

lemma uri_unreserved_not_pct: "uri_unreserved c \<Longrightarrow> c \<noteq> CHR ''%''"
  by (auto simp: uri_unreserved_def)

lemma utf8_bytes_bound: "n < 256 \<Longrightarrow> \<forall>b \<in> set (utf8_bytes n). b < 256"
  by (auto simp: utf8_bytes_def)

lemma pct_decode_pct_bytes:
  "\<forall>b \<in> set bs. b < 256 \<Longrightarrow>
   pct_decode (concat (map pct_byte bs) @ rest) = map_option (\<lambda>xs. bs @ xs) (pct_decode rest)"
  by (induction bs; cases "pct_decode rest") (simp_all add: pct_decode_pct_byte)

lemma pct_decode_encode_char:
  "pct_decode (encode_char c @ rest) =
     map_option (\<lambda>xs. utf8_bytes (of_char c) @ xs) (pct_decode rest)"
proof (cases "uri_unreserved c")
  case True
  then show ?thesis
    by (simp add: encode_char_def utf8_bytes_def uri_unreserved_ascii uri_unreserved_not_pct)
next
  case False
  have "\<forall>b \<in> set (utf8_bytes (of_char c)). b < 256"
    by (rule utf8_bytes_bound) simp
  with False show ?thesis
    by (simp add: encode_char_def pct_decode_pct_bytes)
qed

lemma utf8_decode_bytes:
  assumes "n < 256"
  shows "utf8_decode (utf8_bytes n @ bs) = map_option (Cons (char_of n)) (utf8_decode bs)"
proof (cases "n < 128")
  case True
  then show ?thesis by (simp add: utf8_bytes_def)
next
  case False
  then have "2 \<le> n div 64" "n div 64 < 4" using assms by linarith+
  moreover have "(n div 64) * 64 + n mod 64 = n" by simp
  ultimately show ?thesis
    using False by (simp add: utf8_bytes_def)
qed

lemma decode_encode_Cons:
  "decodeURIComponent (encodeURIComponent (c # s)) = map_option (Cons c) (decodeURIComponent (encodeURIComponent s))"
proof -
  have "pct_decode (encodeURIComponent (c # s)) =
      map_option (\<lambda>xs. utf8_bytes (of_char c) @ xs) (pct_decode (encodeURIComponent s))"
    by (simp add: encodeURIComponent_def pct_decode_encode_char)
  then show ?thesis
    by (cases "pct_decode (encodeURIComponent s)")
       (simp_all add: decodeURIComponent_def utf8_decode_bytes)
qed

theorem uri_roundtrip: "decodeURIComponent (encodeURIComponent s) = Some s"
  by (induction s) (simp_all add: decode_encode_Cons, simp add: decodeURIComponent_def encodeURIComponent_def)


lemma hex_char_unreserved: "d < 16 \<Longrightarrow> uri_unreserved (hex_char d)"
  by (auto simp: hex_char_def uri_unreserved_def less_Suc_eq numeral_eq_Suc)

lemma pct_byte_safe:
  "b < 256 \<Longrightarrow> c \<in> set (pct_byte b) \<Longrightarrow> uri_unreserved c \<or> c = CHR ''%''"
  by (auto simp: pct_byte_def hex_char_unreserved)

lemma encode_char_safe:
  "c \<in> set (encode_char x) \<Longrightarrow> uri_unreserved c \<or> c = CHR ''%''"
proof (cases "uri_unreserved x")
  case True
  then show "c \<in> set (encode_char x) \<Longrightarrow> ?thesis" by (simp add: encode_char_def)
next
  case False
  assume "c \<in> set (encode_char x)"
  with False obtain b where "b \<in> set (utf8_bytes (of_char x))" "c \<in> set (pct_byte b)"
    by (auto simp: encode_char_def)
  moreover have "\<forall>b \<in> set (utf8_bytes (of_char x)). b < 256"
    by (rule utf8_bytes_bound) simp
  ultimately show ?thesis using pct_byte_safe by blast
qed

lemma encode_query_safe:
  "c \<in> set (encodeURIComponent s) \<Longrightarrow> uri_unreserved c \<or> c = CHR ''%''"
  by (auto simp: encodeURIComponent_def dest: encode_char_safe)

lemma split_on_no_sep: "d \<notin> set s \<Longrightarrow> split_on d s = [s]"
  by (induction s) auto

lemma encode_no_amp: "CHR ''&'' \<notin> set (encodeURIComponent s)"
  using encode_query_safe [of "CHR ''&''" s] by (auto simp: uri_unreserved_def)

text \<open>
  C6: the question fetch's URL carries the resource type losslessly: a
  server that reads the \<open>resource_type\<close> query parameter of the URL the
  code builds gets back exactly the string the user typed, for every
  string of Latin-1 characters (the model's character set), including
  \<open>&\<close>, \<open>=\<close>, \<open>#\<close>, spaces and accented letters.
\<close>

theorem get_info_query_roundtrip:
  "query_param ''resource_type'' (request_url (GetInfo r)) = Some r"
proof -
  let ?q = "''resource_type='' @ encodeURIComponent r"
  have "dropWhile (\<lambda>c. c \<noteq> CHR ''?'') (request_url (GetInfo r)) = CHR ''?'' # ?q"
    by (simp add: questions_endpoint_def)
  moreover have "split_on CHR ''&'' ?q = [?q]"
    by (rule split_on_no_sep) (simp add: encode_no_amp)
  ultimately show ?thesis
    by (simp add: query_param_def uri_roundtrip)
qed

end
