(* ===== verification/Controller.thy ===== *)
theory Controller
  imports Ui_State Gateway
begin

text \<open>
  \<open>handleExecute\<close> (\<open>page_20250119073951.tsx\<close>, lines 28--119), cut at its
  \<open>await\<close>s. The synchronous part runs on the state the handler's closure
  captured and ends in one of three ways: it finishes, it awaits a request,
  or it throws out of the \<open>async\<close> function (an unhandled rejection). The
  part after an \<open>await\<close> depends only on the outcome of the request; the
  closure values it uses are already in the request. Each part yields the
  updates it schedules, in order.
\<close>

datatype seg_end =
    Finished
  | Awaiting request
  | Uncaught js_error

type_synonym segment = "update list \<times> seg_end"

definition bot_line :: "string \<Rightarrow> string" where
  "bot_line x = ''MakeCloud: '' @ x"

definition echo_line :: "string \<Rightarrow> string" where
  "echo_line x = ''> '' @ x"

definition sending_line :: string where
  "sending_line = bot_line ''Sending responses back to AI...''"

subsection \<open>The first input: the resource type\<close>

text \<open>Lines 32--35: record the resource type, clear the input, start the fetch.\<close>

definition resource_branch :: "ui \<Rightarrow> segment" where
  "resource_branch s =
     ([SetResourceType (input s), SetInput []], Awaiting (GetInfo (input s)))"

text \<open>
  Lines 36--70, after the fetch: store whatever was decoded, show the first
  question if the list is non-empty, report any exception, and clear the
  input in the \<open>finally\<close> block.
\<close>

definition fetch_error_line :: "js_error \<Rightarrow> string" where
  "fetch_error_line e = bot_line (''Error fetching questions. '' @ js_error_str e)"

fun questions_received :: "js_error + jsval \<Rightarrow> update list" where
  "questions_received (Inl e) = [AppendLine (fetch_error_line e), SetInput []]"
| "questions_received (Inr v) =
     SetQuestions v #
       (case js_length v of
          Inl e \<Rightarrow> [AppendLine (fetch_error_line e), SetInput []]
        | Inr n \<Rightarrow>
            (if js_less 0 n then [AppendLine (bot_line (js_template (js_index v 0))), SetInput []]
             else [SetInput []]))"

definition fetch_questions_cont :: "fetch_outcome \<Rightarrow> update list" where
  "fetch_questions_cont out = questions_received (fetch_questions out)"

subsection \<open>Every later input: an answer\<close>

text \<open>
  Lines 72--86: record the answer and clear the input; if another question
  follows, advance the index and show it, otherwise announce the submission
  and post the resource type, the question list and the answers with this
  one appended. \<open>questions.length\<close> throws on \<open>null\<close>, outside any \<open>try\<close>.
\<close>

definition answer_branch :: "ui \<Rightarrow> segment" where
  "answer_branch s =
     (let x = input s; i = currentQuestionIndex s; qs = questions s;
          base = [AppendResponse x, SetInput []]
      in case js_length qs of
           Inl e \<Rightarrow> (base, Uncaught e)
         | Inr n \<Rightarrow>
             (if js_less (int (Suc i)) n
              then (base @ [IncQuestionIndex, AppendLine (bot_line (js_template (js_index qs (Suc i))))],
                    Finished)
              else (base @ [AppendLine sending_line],
                    Awaiting (GenerateScript (resourceType s) qs (userResponses s @ [x])))))"

text \<open>Lines 87--115, after the submission.\<close>

definition submit_error_line :: "js_error \<Rightarrow> string" where
  "submit_error_line e = bot_line (''Error sending answers. '' @ js_error_str e)"

definition success_line :: string where
  "success_line = bot_line ''Successful!''"

definition submit_result_line :: "fetch_outcome \<Rightarrow> string" where
  "submit_result_line out =
     (case submit_answers out of Inl e \<Rightarrow> submit_error_line e | Inr u \<Rightarrow> success_line)"

definition submit_cont :: "fetch_outcome \<Rightarrow> update list" where
  "submit_cont out = [AppendLine (submit_result_line out)]"

subsection \<open>The handler\<close>

text \<open>
  Lines 28--31: blank input does nothing; any other input is echoed first;
  an empty (falsy) \<open>resourceType\<close> selects the first branch.
\<close>

definition handleExecute :: "ui \<Rightarrow> segment" where
  "handleExecute s =
     (if js_trim (input s) = [] then ([], Finished)
      else
        (let (us, e) = (if resourceType s = [] then resource_branch s else answer_branch s)
         in (AppendLine (echo_line (input s)) # us, e)))"

text \<open>What runs when the awaited request settles.\<close>

fun resume :: "request \<Rightarrow> fetch_outcome \<Rightarrow> update list" where
  "resume (GetInfo r) out = fetch_questions_cont out"
| "resume (GenerateScript r qs as) out = submit_cont out"

text \<open>
  One whole run of the handler when nothing else happens while it awaits:
  the gateway \<open>gw\<close> answers each request.
\<close>

definition handle :: "(request \<Rightarrow> fetch_outcome) \<Rightarrow> ui \<Rightarrow> ui" where
  "handle gw s =
     (case handleExecute s of
        (us, Awaiting r) \<Rightarrow> apply_updates (resume r (gw r)) (apply_updates us s)
      | (us, e) \<Rightarrow> apply_updates us s)"


subsection \<open>The branches of the handler\<close>

text \<open>
  One lemma per path through lines 28--86: the updates scheduled and how
  the synchronous part ends. The answer paths are stated for every question
  list whose items read as strings (\<^const>\<open>js_items\<close>): an array of
  strings, as a well-behaved server sends it, or a string.
\<close>

abbreviation blank :: "string \<Rightarrow> bool" where
  "blank x \<equiv> js_trim x = []"

lemma handleExecute_blank [simp]: "blank (input s) \<Longrightarrow> handleExecute s = ([], Finished)"
  by (simp add: handleExecute_def)

lemma handleExecute_first:
  "\<not> blank (input s) \<Longrightarrow> resourceType s = [] \<Longrightarrow>
   handleExecute s =
     ([AppendLine (echo_line (input s)), SetResourceType (input s), SetInput []],
      Awaiting (GetInfo (input s)))"
  by (simp add: handleExecute_def resource_branch_def)

lemma handleExecute_answer:
  "\<not> blank (input s) \<Longrightarrow> resourceType s \<noteq> [] \<Longrightarrow>
   handleExecute s = (AppendLine (echo_line (input s)) # fst (answer_branch s), snd (answer_branch s))"
  by (simp add: handleExecute_def split: prod.split)

lemma answer_branch_next:
  assumes "js_items (questions s) = Some qs" and "Suc (currentQuestionIndex s) < length qs"
  shows "answer_branch s =
     ([AppendResponse (input s), SetInput [], IncQuestionIndex,
       AppendLine (bot_line (qs ! Suc (currentQuestionIndex s)))], Finished)"
  using assms js_items_read [OF assms(1)] by (simp add: answer_branch_def Let_def)

lemma answer_branch_last:
  assumes "js_items (questions s) = Some qs" and "\<not> Suc (currentQuestionIndex s) < length qs"
  shows "answer_branch s =
     ([AppendResponse (input s), SetInput [], AppendLine sending_line],
      Awaiting (GenerateScript (resourceType s) (questions s) (userResponses s @ [input s])))"
  using assms js_items_read [OF assms(1)] by (simp add: answer_branch_def Let_def)

lemma answer_branch_lines:
  "\<exists>l. appended_lines (fst (answer_branch s)) \<in> {[], [l]}"
  by (auto simp: answer_branch_def Let_def split: sum.split)

lemma fetch_questions_cont_ok:
  assumes "http_ok st" and "js_items v = Some qs"
  shows "fetch_questions_cont (HttpResponse st (Inr v)) =
     SetQuestions v # (if qs = [] then [SetInput []] else [AppendLine (bot_line (hd qs)), SetInput []])"
  using assms js_items_read [OF assms(2), of 0]
  by (cases qs) (simp_all add: fetch_questions_cont_def fetch_questions_def)

lemma fetch_questions_cont_error:
  "fetch_questions out = Inl e \<Longrightarrow>
   fetch_questions_cont out = [AppendLine (fetch_error_line e), SetInput []]"
  by (simp add: fetch_questions_cont_def)

subsection \<open>Properties of one input\<close>

text \<open>C3: blank input changes nothing, whatever the network would answer.\<close>

theorem blank_input_ignored:
  assumes "\<forall>c \<in> set (input s). js_whitespace c"
  shows "handle gw s = s"
  using assms by (simp add: handle_def js_trim_Nil_iff)

theorem blank_input_ignored_witness:
  "handle (\<lambda>r. TransportFailure ''offline'') (ui_init\<lparr>input := ''  \<newline>''\<rparr>) =
   ui_init\<lparr>input := ''  \<newline>''\<rparr>"
proof -
  have h: "\<forall>c \<in> set (input (ui_init\<lparr>input := ''  \<newline>''\<rparr>)). js_whitespace c"
    by (simp add: js_whitespace_def)
  show ?thesis by (rule blank_input_ignored [OF h])
qed

text \<open>
  C2: a non-blank input is echoed before anything else and before any
  \<open>await\<close>: the synchronous part appends the echo line and at most one
  more line (the next question or the sending notice).
\<close>

theorem echo_first:
  assumes "\<not> blank (input s)"
  shows "\<exists>extra. lines (apply_updates (fst (handleExecute s)) s) =
                   lines s @ echo_line (input s) # extra \<and> length extra \<le> 1"
proof (cases "resourceType s = []")
  case True
  with assms show ?thesis by (simp add: handleExecute_first lines_apply_updates)
next
  case False
  obtain l where "appended_lines (fst (answer_branch s)) \<in> {[], [l]}"
    using answer_branch_lines by blast
  with assms False show ?thesis
    by (auto simp: handleExecute_answer lines_apply_updates)
qed

theorem echo_first_witness:
  "\<exists>extra. lines (apply_updates (fst (handleExecute (ui_init\<lparr>input := ''S3 bucket''\<rparr>)))
                  (ui_init\<lparr>input := ''S3 bucket''\<rparr>)) =
     lines (ui_init\<lparr>input := ''S3 bucket''\<rparr>) @ echo_line ''S3 bucket'' # extra \<and> length extra \<le> 1"
proof -
  have h: "\<not> blank (input (ui_init\<lparr>input := ''S3 bucket''\<rparr>))"
    by (simp add: js_trim_Nil_iff js_whitespace_def)
  show ?thesis using echo_first [OF h] by simp
qed


subsection \<open>What the continuations leave alone\<close>

lemma not_blank_nonempty: "\<not> blank x \<Longrightarrow> x \<noteq> []"
  by (auto simp: js_trim_def)

lemma fetch_questions_cont_frame:
  "resourceType (apply_updates (fetch_questions_cont out) s) = resourceType s \<and>
   userResponses (apply_updates (fetch_questions_cont out) s) = userResponses s \<and>
   currentQuestionIndex (apply_updates (fetch_questions_cont out) s) = currentQuestionIndex s"
  by (cases "fetch_questions out") (auto simp: fetch_questions_cont_def split: sum.split)

lemma fetch_questions_cont_input:
  "input (apply_updates (fetch_questions_cont out) s) = []"
  by (cases "fetch_questions out") (auto simp: fetch_questions_cont_def split: sum.split)

lemma submit_cont_frame:
  "\<exists>l. apply_updates (submit_cont out) s = s\<lparr>lines := lines s @ [l]\<rparr>"
  by (rule exI [of _ "submit_result_line out"]) (simp add: submit_cont_def)


subsection \<open>What a successful submission shows\<close>

text \<open>
  C17: whatever the server answers to a successful submission (any 2xx
  status, any body, even one that is not JSON), the transcript shows the
  fixed line \<open>MakeCloud: Successful!\<close>: the generated result is never shown.
\<close>

theorem submit_success_hides_result:
  assumes "http_ok st"
  shows "submit_result_line (HttpResponse st body) = ''MakeCloud: Successful!''"
  using assms by (simp add: submit_result_line_def submit_answers_def success_line_def bot_line_def)

theorem submit_success_hides_result_witness:
  "submit_result_line (HttpResponse 200 (Inr (JStr ''resource aws_s3_bucket {}''))) = ''MakeCloud: Successful!''"
  by (rule submit_success_hides_result) (simp add: http_ok_def)

text \<open>
  C28: the error lines the two \<open>catch\<close> blocks write, as \<open>${error}\<close> prints
  the exception: a response with a status outside 200--299 gives
  \<open>Error: HTTP error! Status: \<close> and the status, for the question fetch
  (followed by the \<open>finally\<close> clearing the input) and for the submission
  alike; a transport failure gives the browser's \<open>TypeError\<close> and its
  message.
\<close>

theorem http_error_lines:
  assumes "\<not> http_ok st"
  shows "fetch_questions_cont (HttpResponse st b) =
      [AppendLine (''MakeCloud: Error fetching questions. Error: HTTP error! Status: '' @ int_to_str st), SetInput []] \<and>
    submit_cont (HttpResponse st b) =
      [AppendLine (''MakeCloud: Error sending answers. Error: HTTP error! Status: '' @ int_to_str st)] \<and>
    fetch_questions_cont (TransportFailure m) =
      [AppendLine (''MakeCloud: Error fetching questions. TypeError: '' @ m), SetInput []]"
  using assms
  by (simp add: fetch_questions_cont_def fetch_questions_def fetch_error_line_def bot_line_def
      submit_cont_def submit_result_line_def submit_answers_def submit_error_line_def)

theorem http_error_lines_witness:
  "fetch_questions_cont (HttpResponse 404 (Inl ''Not Found'')) =
     [AppendLine ''MakeCloud: Error fetching questions. Error: HTTP error! Status: 404'', SetInput []]"
proof -
  have "\<not> http_ok 404" by (simp add: http_ok_def)
  from http_error_lines [OF this, of "Inl ''Not Found''" "''offline''"] show ?thesis
    by (simp add: int_to_str_def nat_to_str.simps digit_char_def)
qed

end
