(* ===== verification/Runtime.thy ===== *)
theory Runtime
  imports Controller
begin

text \<open>
  The component running in the browser. Events are the user typing
  (\<open>onChange\<close>), pressing Enter or Run (\<open>handleExecute()\<close>, whose promise
  nobody awaits), toggling the theme, and a pending request settling. A
  request settles at any later time and in any order: nothing stops the user
  from submitting again while a call is in flight. Each event's updates are
  committed before the next event, so a new run of the handler captures the
  state as it then is. The world records, besides the UI state, the requests
  in flight, every request sent, the exceptions that escaped the handler,
  and, as a history variable, the inputs the handler accepted.
\<close>

record world =
  view :: ui
  inflight :: "request list"
  sent :: "request list"
  rejections :: "js_error list"
  accepted :: "string list"

definition world_init :: world where
  "world_init = \<lparr>view = ui_init, inflight = [], sent = [], rejections = [], accepted = []\<rparr>"

datatype event =
    Type string
  | Execute
  | Toggle
  | Settle nat fetch_outcome

text \<open>Starting the handler: commit the synchronous part, then note how it ended.\<close>

definition start_handler :: "world \<Rightarrow> world" where
  "start_handler w =
     (let s = view w; (us, e) = handleExecute s;
          w1 = w\<lparr>view := apply_updates us s,
                 accepted := accepted w @ (if blank (input s) then [] else [input s])\<rparr>
      in case e of
           Finished \<Rightarrow> w1
         | Awaiting r \<Rightarrow> w1\<lparr>inflight := inflight w @ [r], sent := sent w @ [r]\<rparr>
         | Uncaught err \<Rightarrow> w1\<lparr>rejections := rejections w @ [err]\<rparr>)"

fun world_step :: "world \<Rightarrow> event \<Rightarrow> world" where
  "world_step w (Type x) = w\<lparr>view := apply_updates (onChange x) (view w)\<rparr>"
| "world_step w Execute = start_handler w"
| "world_step w Toggle = w\<lparr>view := apply_updates toggleTheme (view w)\<rparr>"
| "world_step w (Settle i out) =
     (if i < length (inflight w)
      then w\<lparr>view := apply_updates (resume (inflight w ! i) out) (view w),
             inflight := remove_nth i (inflight w)\<rparr>
      else w)"

fun run :: "world \<Rightarrow> event list \<Rightarrow> world" where
  "run w [] = w"
| "run w (e # es) = run (world_step w e) es"

inductive reachable :: "world \<Rightarrow> bool" where
  init: "reachable world_init"
| step: "reachable w \<Longrightarrow> reachable (world_step w e)"

text \<open>
  The sequential use the spec assumes: type an input, run the handler, and
  let its request (if any) settle with the gateway's answer before the next
  input.
\<close>

definition session_step :: "(request \<Rightarrow> fetch_outcome) \<Rightarrow> world \<Rightarrow> string \<Rightarrow> world" where
  "session_step gw w x =
     (let w1 = world_step (world_step w (Type x)) Execute
      in case inflight w1 of [] \<Rightarrow> w1 | r # rs \<Rightarrow> world_step w1 (Settle 0 (gw r)))"

definition session :: "(request \<Rightarrow> fetch_outcome) \<Rightarrow> string list \<Rightarrow> world \<Rightarrow> world" where
  "session gw xs w = fold (\<lambda>x w. session_step gw w x) xs w"

subsection \<open>The invariant of every reachable world\<close>

text \<open>
  What the handler keeps true between the fields it writes at different
  times: the first accepted input is the resource type and the others are
  the answers; the first request sent is the one question fetch and every
  later one a submission for the same resource type whose answers are a
  prefix of the answers recorded; calls in flight were sent and no request is
  sent twice; while the question fetch is in flight the question list is the
  initial empty array and the index 0; and the index never passes the
  length of whatever the question list is.
\<close>

definition idx_ok :: "ui \<Rightarrow> bool" where
  "idx_ok s \<longleftrightarrow> currentQuestionIndex s = 0 \<or>
     (\<exists>n. js_length (questions s) = Inr (Some n) \<and> int (currentQuestionIndex s) < n)"

definition world_inv :: "world \<Rightarrow> bool" where
  "world_inv w \<longleftrightarrow>
     (accepted w = [] \<longrightarrow>
        resourceType (view w) = [] \<and> sent w = [] \<and> userResponses (view w) = [] \<and>
        questions (view w) = JArr [] \<and> currentQuestionIndex (view w) = 0) \<and>
     (accepted w \<noteq> [] \<longrightarrow>
        resourceType (view w) = hd (accepted w) \<and> resourceType (view w) \<noteq> [] \<and>
        userResponses (view w) = tl (accepted w) \<and>
        (\<exists>rest. sent w = GetInfo (resourceType (view w)) # rest \<and>
           (\<forall>r \<in> set rest. \<exists>qs as. r = GenerateScript (resourceType (view w)) qs as \<and>
                               prefix as (userResponses (view w))))) \<and>
     set (inflight w) \<subseteq> set (sent w) \<and> distinct (inflight w) \<and> distinct (sent w) \<and>
     ((\<exists>r. GetInfo r \<in> set (inflight w)) \<longrightarrow>
        questions (view w) = JArr [] \<and> currentQuestionIndex (view w) = 0) \<and>
     idx_ok (view w)"

subsection \<open>Runs and reachable worlds\<close>

lemma run_append: "run w (es @ fs) = run (run w es) fs"
  by (induction es arbitrary: w) auto

lemma reachable_run: "reachable w \<Longrightarrow> reachable (run w es)"
  by (induction es arbitrary: w) (auto intro: reachable.step)

lemma reachable_iff_run: "reachable w \<longleftrightarrow> (\<exists>es. w = run world_init es)"
proof
  assume "reachable w"
  then show "\<exists>es. w = run world_init es"
  proof (induction rule: reachable.induct)
    case init
    have "world_init = run world_init []" by simp
    then show ?case by blast
  next
    case (step w e)
    then obtain es where "w = run world_init es" by blast
    then have "world_step w e = run world_init (es @ [e])" by (simp add: run_append)
    then show ?case by blast
  qed
next
  assume "\<exists>es. w = run world_init es"
  then show "reachable w" using reachable.init reachable_run by blast
qed

lemma run_snoc: "run w (es @ [e]) = world_step (run w es) e"
  by (simp add: run_append)

lemma session_Cons [simp]: "session gw (x # xs) w = session gw xs (session_step gw w x)"
  by (simp add: session_def)

lemma session_Nil [simp]: "session gw [] w = w"
  by (simp add: session_def)

lemma session_append: "session gw (xs @ ys) w = session gw ys (session gw xs w)"
  by (simp add: session_def)


subsection \<open>The invariant holds in every reachable world\<close>

lemma world_inv_init: "world_inv world_init"
  by (simp add: world_inv_def world_init_def ui_init_def idx_ok_def)

lemma world_inv_cong:
  assumes "accepted w' = accepted w" "sent w' = sent w" "inflight w' = inflight w"
    "resourceType (view w') = resourceType (view w)" "userResponses (view w') = userResponses (view w)"
    "questions (view w') = questions (view w)"
    "currentQuestionIndex (view w') = currentQuestionIndex (view w)"
  shows "world_inv w' = world_inv w"
  unfolding world_inv_def idx_ok_def assms ..

lemma world_inv_Type: "world_inv w \<Longrightarrow> world_inv (world_step w (Type x))"
  by (subst world_inv_cong [of _ w]) (simp_all add: onChange_def)

lemma world_inv_Toggle: "world_inv w \<Longrightarrow> world_inv (world_step w Toggle)"
  by (subst world_inv_cong [of _ w]) (simp_all add: toggleTheme_def)

lemma world_inv_Execute_blank:
  "world_inv w \<Longrightarrow> blank (input (view w)) \<Longrightarrow> world_inv (world_step w Execute)"
  by (subst world_inv_cong [of _ w]) (simp_all add: start_handler_def Let_def)

lemma world_inv_Execute_first:
  assumes inv: "world_inv w" and nb: "\<not> blank (input (view w))" and rt: "resourceType (view w) = []"
  shows "world_inv (world_step w Execute)"
proof -
  from inv rt have acc: "accepted w = []"
    by (auto simp: world_inv_def)
  with inv have fields: "sent w = []" "userResponses (view w) = []" "questions (view w) = JArr []"
      "currentQuestionIndex (view w) = 0"
    by (auto simp: world_inv_def)
  with inv have "inflight w = []" by (auto simp: world_inv_def)
  with acc fields nb rt show ?thesis
    by (simp add: start_handler_def Let_def handleExecute_first world_inv_def idx_ok_def not_blank_nonempty)
qed


lemma world_inv_Execute_answer:
  assumes inv: "world_inv w" and nb: "\<not> blank (input (view w))" and rt: "resourceType (view w) \<noteq> []"
  shows "world_inv (world_step w Execute)"
proof -
  let ?s = "view w"
  let ?x = "input ?s"
  from inv rt have acc: "accepted w \<noteq> []"
    by (auto simp: world_inv_def)
  with inv obtain rest where
      hd_acc: "resourceType ?s = hd (accepted w)" and
      tl_acc: "userResponses ?s = tl (accepted w)" and
      sent_w: "sent w = GetInfo (resourceType ?s) # rest" and
      rest: "\<forall>r \<in> set rest. \<exists>qs as. r = GenerateScript (resourceType ?s) qs as \<and> prefix as (userResponses ?s)"
    by (auto simp: world_inv_def)
  from inv have sub: "set (inflight w) \<subseteq> set (sent w)" and d1: "distinct (inflight w)"
      and d2: "distinct (sent w)"
      and get: "(\<exists>r. GetInfo r \<in> set (inflight w)) \<longrightarrow>
                  questions ?s = JArr [] \<and> currentQuestionIndex ?s = 0"
      and idx: "idx_ok ?s"
    by (auto simp: world_inv_def)
  have acc': "hd (accepted w @ [?x]) = hd (accepted w)" "tl (accepted w @ [?x]) = tl (accepted w) @ [?x]"
    using acc by auto
  have rest': "\<forall>r \<in> set rest. \<exists>qs as. r = GenerateScript (resourceType ?s) qs as \<and>
                 prefix as (userResponses ?s @ [?x])"
    using rest by (auto intro: prefix_trans_append)
  show ?thesis
  proof (cases "js_length (questions ?s)")
    case (Inl err)
    then show ?thesis
      using acc acc' sent_w rest' sub d1 d2 get idx hd_acc tl_acc nb rt
      by (simp add: start_handler_def Let_def handleExecute_answer answer_branch_def world_inv_def idx_ok_def)
  next
    case (Inr n)
    show ?thesis
    proof (cases "js_less (int (Suc (currentQuestionIndex ?s))) n")
      case True
      have "\<not> (\<exists>r. GetInfo r \<in> set (inflight w))"
        using get True Inr by (auto simp: js_less_def)
      moreover have "idx_ok (?s\<lparr>currentQuestionIndex := Suc (currentQuestionIndex ?s)\<rparr>)"
        using True Inr by (cases n) (auto simp: idx_ok_def js_less_def)
      ultimately show ?thesis
        using Inr True acc acc' sent_w rest' sub d1 d2 hd_acc tl_acc nb rt
        by (simp add: start_handler_def Let_def handleExecute_answer answer_branch_def world_inv_def idx_ok_def)
    next
      case False
      let ?r = "GenerateScript (resourceType ?s) (questions ?s) (userResponses ?s @ [?x])"
      have fresh: "?r \<notin> set (sent w)"
        using sent_w rest by (auto dest: prefix_snoc_neq)
      then have "?r \<notin> set (inflight w)" using sub by blast
      with fresh show ?thesis
        using Inr False acc acc' sent_w rest' sub d1 d2 get idx hd_acc tl_acc nb rt
        by (simp add: start_handler_def Let_def handleExecute_answer answer_branch_def world_inv_def idx_ok_def)
           blast
    qed
  qed
qed

lemma world_inv_Settle:
  assumes inv: "world_inv w"
  shows "world_inv (world_step w (Settle i out))"
proof (cases "i < length (inflight w)")
  case False
  with inv show ?thesis by simp
next
  case True
  let ?s = "view w"
  let ?r = "inflight w ! i"
  from inv have sub: "set (inflight w) \<subseteq> set (sent w)" and d1: "distinct (inflight w)"
      and d2: "distinct (sent w)"
      and get: "(\<exists>r. GetInfo r \<in> set (inflight w)) \<longrightarrow>
                  questions ?s = JArr [] \<and> currentQuestionIndex ?s = 0"
      and idx: "idx_ok ?s"
    by (auto simp: world_inv_def)
  have r_in: "?r \<in> set (inflight w)" using True by simp
  then have "sent w \<noteq> []" using sub by auto
  then have "accepted w \<noteq> []" using inv unfolding world_inv_def by blast
  note acc = this
  with inv obtain rest where
      hd_acc: "resourceType ?s = hd (accepted w)" and rt_ne: "resourceType ?s \<noteq> []" and
      tl_acc: "userResponses ?s = tl (accepted w)" and
      sent_w: "sent w = GetInfo (resourceType ?s) # rest" and
      rest: "\<forall>r \<in> set rest. \<exists>qs as. r = GenerateScript (resourceType ?s) qs as \<and> prefix as (userResponses ?s)"
    unfolding world_inv_def by blast
  have rm: "distinct (remove_nth i (inflight w))" "?r \<notin> set (remove_nth i (inflight w))"
    using distinct_remove_nth [OF d1 True] by auto
  have rm_sub: "set (remove_nth i (inflight w)) \<subseteq> set (sent w)"
    by (rule subset_trans [OF set_remove_nth_subset sub])
  show ?thesis
  proof (cases ?r)
    case (GetInfo r0)
    have gin: "GetInfo r0 \<in> set (inflight w)" using r_in GetInfo by simp
    with get have q0: "questions ?s = JArr []" "currentQuestionIndex ?s = 0" by blast+
    have nrest: "\<And>y. GetInfo y \<notin> set rest" using rest by blast
    have r0: "r0 = resourceType ?s"
      using gin sub sent_w nrest by (metis set_ConsD subsetD request.inject(1))
    have no_get: "\<not> (\<exists>r. GetInfo r \<in> set (remove_nth i (inflight w)))"
    proof
      assume "\<exists>r. GetInfo r \<in> set (remove_nth i (inflight w))"
      then obtain r' where r': "GetInfo r' \<in> set (remove_nth i (inflight w))" by blast
      then have "r' = resourceType ?s"
        using rm_sub sent_w nrest by (metis set_ConsD subsetD request.inject(1))
      with r' rm(2) GetInfo r0 show False by simp
    qed
    let ?v = "apply_updates (fetch_questions_cont out) ?s"
    have fr: "resourceType ?v = resourceType ?s" "userResponses ?v = userResponses ?s"
        "currentQuestionIndex ?v = 0"
      using fetch_questions_cont_frame [of out ?s] q0 by simp_all
    have step: "world_step w (Settle i out) = w\<lparr>view := ?v, inflight := remove_nth i (inflight w)\<rparr>"
      using True GetInfo by simp
    show ?thesis
      unfolding step world_inv_def idx_ok_def
      using fr acc rt_ne sent_w rest rm no_get d2 hd_acc tl_acc
      by simp (use rm_sub sent_w in simp)
  next
    case (GenerateScript r0 qs as)
    obtain l where l: "apply_updates (submit_cont out) ?s = ?s\<lparr>lines := lines ?s @ [l]\<rparr>"
      using submit_cont_frame by blast
    have step: "world_step w (Settle i out) =
        w\<lparr>view := ?s\<lparr>lines := lines ?s @ [l]\<rparr>, inflight := remove_nth i (inflight w)\<rparr>"
      using True GenerateScript l by simp
    have "(\<exists>r. GetInfo r \<in> set (remove_nth i (inflight w))) \<longrightarrow> (\<exists>r. GetInfo r \<in> set (inflight w))"
      using set_remove_nth_subset [of i "inflight w"] by blast
    then show ?thesis
      unfolding step world_inv_def idx_ok_def
      using rm get idx acc hd_acc rt_ne tl_acc sent_w rest d2
      by (simp add: idx_ok_def) (use rm_sub sent_w in simp)
  qed
qed

lemma world_inv_step:
  assumes "world_inv w"
  shows "world_inv (world_step w e)"
proof (cases e)
  case (Type x)
  with assms show ?thesis by (metis world_inv_Type)
next
  case Execute
  with assms show ?thesis
    by (metis world_inv_Execute_blank world_inv_Execute_first world_inv_Execute_answer)
next
  case Toggle
  with assms show ?thesis by (metis world_inv_Toggle)
next
  case (Settle i out)
  with assms show ?thesis by (metis world_inv_Settle)
qed

lemma reachable_world_inv: "reachable w \<Longrightarrow> world_inv w"
  by (induction rule: reachable.induct) (simp_all add: world_inv_init world_inv_step)


lemmas run_eval_defs = world_init_def ui_init_def start_handler_def Let_def handleExecute_def
  resource_branch_def answer_branch_def onChange_def fetch_questions_cont_def fetch_questions_def
  http_ok_def submit_cont_def submit_result_line_def submit_answers_def js_trim_def js_whitespace_def

lemma view_start_handler:
  "view (start_handler w) = apply_updates (fst (handleExecute (view w))) (view w)"
  by (simp add: start_handler_def Let_def split: prod.split seg_end.split)

lemma sent_start_handler:
  "sent (start_handler w) =
     sent w @ (case snd (handleExecute (view w)) of Awaiting r \<Rightarrow> [r] | _ \<Rightarrow> [])"
  by (simp add: start_handler_def Let_def split: prod.split seg_end.split)

subsection \<open>Properties of every run\<close>

text \<open>
  C14: the transcript is append-only: no event removes or changes a line
  already shown.
\<close>

theorem transcript_append_only:
  "prefix (lines (view w)) (lines (view (world_step w e)))"
proof (cases e)
  case Execute
  then show ?thesis by (simp add: view_start_handler lines_apply_updates)
next
  case (Settle i out)
  then show ?thesis by (simp add: lines_apply_updates)
qed (simp_all add: onChange_def toggleTheme_def)

text \<open>
  C4: under any interleaving of typing, submitting and network answers, the
  resource type is the first input the handler accepted and the recorded
  answers are exactly the inputs accepted after it, in order.
\<close>

theorem answers_are_later_inputs:
  assumes "reachable w" and "accepted w \<noteq> []"
  shows "resourceType (view w) = hd (accepted w) \<and> userResponses (view w) = tl (accepted w)"
  using reachable_world_inv [OF assms(1)] assms(2) by (simp add: world_inv_def)

theorem answers_are_later_inputs_witness:
  "resourceType (view (run world_init [Type ''S3 bucket'', Execute, Type ''  '', Execute,
      Type ''us-east-1'', Execute])) = ''S3 bucket'' \<and>
   userResponses (view (run world_init [Type ''S3 bucket'', Execute, Type ''  '', Execute,
      Type ''us-east-1'', Execute])) = [''us-east-1'']"
proof -
  let ?w = "run world_init [Type ''S3 bucket'', Execute, Type ''  '', Execute, Type ''us-east-1'', Execute]"
  have r: "reachable ?w" by (rule reachable_run [OF reachable.init])
  have a: "accepted ?w = [''S3 bucket'', ''us-east-1'']" by (simp add: run_eval_defs)
  show ?thesis using answers_are_later_inputs [OF r] a by simp
qed

text \<open>
  C5: the first request ever sent is the question fetch for the resource
  type, and it is the only one: every later request is a submission for the
  same resource type, carrying answers that are a prefix of those recorded.
\<close>

theorem requests_sent_shape:
  assumes "reachable w"
  shows "sent w = [] \<or>
    (\<exists>rest. sent w = GetInfo (resourceType (view w)) # rest \<and>
       (\<forall>r \<in> set rest. \<exists>qs as. r = GenerateScript (resourceType (view w)) qs as \<and>
                                prefix as (userResponses (view w))))"
  using reachable_world_inv [OF assms] by (cases "accepted w = []") (auto simp: world_inv_def)

theorem requests_sent_shape_witness:
  "sent (run world_init [Type ''S3 bucket'', Execute, Type ''us-east-1'', Execute]) =
     GetInfo ''S3 bucket'' # [GenerateScript ''S3 bucket'' (JArr []) [''us-east-1'']]"
proof -
  let ?w = "run world_init [Type ''S3 bucket'', Execute, Type ''us-east-1'', Execute]"
  have r: "reachable ?w" by (rule reachable_run [OF reachable.init])
  have "sent ?w \<noteq> []" by (simp add: run_eval_defs)
  with requests_sent_shape [OF r] have "\<exists>rest. sent ?w = GetInfo (resourceType (view ?w)) # rest"
    by blast
  then show ?thesis by (simp add: run_eval_defs)
qed

text \<open>
  C7: \<open>currentQuestionIndex\<close> stays 0 or below the length the question list
  has, whatever value the server sent as the list.
\<close>

theorem question_index_bound:
  assumes "reachable w"
  shows "currentQuestionIndex (view w) = 0 \<or>
    (\<exists>n. js_length (questions (view w)) = Inr (Some n) \<and> int (currentQuestionIndex (view w)) < n)"
  using reachable_world_inv [OF assms] by (simp add: world_inv_def idx_ok_def)

theorem question_index_bound_witness:
  "js_length (questions (view (run world_init [Type ''S3 bucket'', Execute,
      Settle 0 (HttpResponse 200 (Inr (str_array [''Region?'', ''Public access?'']))),
      Type ''us-east-1'', Execute]))) = Inr (Some 2) \<and>
   currentQuestionIndex (view (run world_init [Type ''S3 bucket'', Execute,
      Settle 0 (HttpResponse 200 (Inr (str_array [''Region?'', ''Public access?'']))),
      Type ''us-east-1'', Execute])) = 1"
proof -
  let ?w = "run world_init [Type ''S3 bucket'', Execute,
      Settle 0 (HttpResponse 200 (Inr (str_array [''Region?'', ''Public access?'']))),
      Type ''us-east-1'', Execute]"
  have r: "reachable ?w" by (rule reachable_run [OF reachable.init])
  have "currentQuestionIndex (view ?w) = 0 \<or>
      (\<exists>n. js_length (questions (view ?w)) = Inr (Some n) \<and> int (currentQuestionIndex (view ?w)) < n)"
    by (rule question_index_bound [OF r])
  then show ?thesis by (simp add: run_eval_defs)
qed


subsection \<open>Overlapping calls\<close>

text \<open>
  C8: nothing disables the input while the question fetch is in flight. A
  non-blank input submitted then is taken as an answer: with the question
  list still the initial empty array, the handler at once posts the answers
  with an empty question list, before any question was shown.
\<close>

theorem submit_races_question_fetch:
  assumes "reachable w" and "GetInfo r \<in> set (inflight w)" and "\<not> blank (input (view w))"
  shows "sent (world_step w Execute) =
           sent w @ [GenerateScript r (JArr []) (userResponses (view w) @ [input (view w)])]"
proof -
  have inv: "world_inv w" by (rule reachable_world_inv [OF assms(1)])
  then have q: "questions (view w) = JArr []" "currentQuestionIndex (view w) = 0"
    using assms(2) by (auto simp: world_inv_def)
  have "GetInfo r \<in> set (sent w)" using inv assms(2) by (auto simp: world_inv_def)
  then have "sent w \<noteq> []" by auto
  then have acc: "accepted w \<noteq> []" using inv unfolding world_inv_def by blast
  with inv obtain rest where rt: "resourceType (view w) \<noteq> []"
      and sent_w: "sent w = GetInfo (resourceType (view w)) # rest"
      and rest: "\<forall>x \<in> set rest. \<exists>qs as. x = GenerateScript (resourceType (view w)) qs as \<and>
                   prefix as (userResponses (view w))"
    unfolding world_inv_def by blast
  have "GetInfo r \<notin> set rest" using rest by blast
  then have "r = resourceType (view w)"
    using \<open>GetInfo r \<in> set (sent w)\<close> sent_w by simp
  with q rt assms(3) show ?thesis
    by (simp add: sent_start_handler handleExecute_answer answer_branch_def Let_def)
qed

theorem submit_races_question_fetch_witness:
  "sent (run world_init [Type ''S3 bucket'', Execute, Type ''us-east-1'', Execute]) =
     [GetInfo ''S3 bucket'', GenerateScript ''S3 bucket'' (JArr []) [''us-east-1'']]"
proof -
  let ?w = "run world_init [Type ''S3 bucket'', Execute, Type ''us-east-1'']"
  have r: "reachable ?w" by (rule reachable_run [OF reachable.init])
  have g: "GetInfo ''S3 bucket'' \<in> set (inflight ?w)" by (simp add: run_eval_defs)
  have nb: "\<not> blank (input (view ?w))" by (simp add: run_eval_defs)
  have "sent (world_step ?w Execute) =
      sent ?w @ [GenerateScript ''S3 bucket'' (JArr []) (userResponses (view ?w) @ [input (view ?w)])]"
    by (rule submit_races_question_fetch [OF r g nb])
  moreover have "run world_init [Type ''S3 bucket'', Execute, Type ''us-east-1'', Execute] =
      world_step ?w Execute"
    by (simp add: run_append [of _ "[Type ''S3 bucket'', Execute, Type ''us-east-1'']" "[Execute]", simplified])
  ultimately show ?thesis by (simp add: run_eval_defs)
qed

text \<open>
  C12: when the question fetch settles, its \<open>finally\<close> block clears the input
  field, whatever it holds: text the user typed while the fetch was in
  flight is lost.
\<close>

theorem fetch_settle_clears_input:
  assumes "i < length (inflight w)" and "inflight w ! i = GetInfo r"
  shows "input (view (world_step w (Settle i out))) = []"
  using assms by (simp add: fetch_questions_cont_input)

theorem fetch_settle_clears_input_witness:
  "input (view (run world_init [Type ''S3 bucket'', Execute, Type ''us-ea'',
      Settle 0 (HttpResponse 200 (Inr (str_array [''Region?''])))])) = []"
proof -
  let ?w = "run world_init [Type ''S3 bucket'', Execute, Type ''us-ea'']"
  have i: "0 < length (inflight ?w)" and g: "inflight ?w ! 0 = GetInfo ''S3 bucket''"
    by (simp_all add: run_eval_defs)
  have "input (view (world_step ?w (Settle 0 (HttpResponse 200 (Inr (str_array [''Region?''])))))) = []"
    by (rule fetch_settle_clears_input [OF i g])
  then show ?thesis by (simp add: run_append [of _ "[Type ''S3 bucket'', Execute, Type ''us-ea'']", simplified])
qed


subsection \<open>Settling a submission; a \<open>null\<close> question list\<close>

text \<open>
  C13: when a submission settles with an error, the handler only appends the
  error line: the resource type, the question list, the answers and the
  index stay as they were, so the user can retry by hand.
\<close>

theorem submit_failure_keeps_session:
  assumes "i < length (inflight w)" and "inflight w ! i = GenerateScript r qs as"
    and "submit_answers out = Inl e"
  shows "view (world_step w (Settle i out)) =
           (view w)\<lparr>lines := lines (view w) @ [submit_error_line e]\<rparr>"
  using assms by (simp add: submit_cont_def submit_result_line_def)

theorem submit_failure_keeps_session_witness:
  "view (run world_init [Type ''S3 bucket'', Execute, Type ''us-east-1'', Execute,
      Settle 1 (TransportFailure ''Failed to fetch'')]) =
   (view (run world_init [Type ''S3 bucket'', Execute, Type ''us-east-1'', Execute]))
     \<lparr>lines := lines (view (run world_init [Type ''S3 bucket'', Execute, Type ''us-east-1'', Execute])) @
        [submit_error_line (TypeError ''Failed to fetch'')]\<rparr>"
proof -
  let ?w = "run world_init [Type ''S3 bucket'', Execute, Type ''us-east-1'', Execute]"
  have i: "1 < length (inflight ?w)"
    and g: "inflight ?w ! 1 = GenerateScript ''S3 bucket'' (JArr []) [''us-east-1'']"
    by (simp_all add: run_eval_defs)
  have e: "submit_answers (TransportFailure ''Failed to fetch'') = Inl (TypeError ''Failed to fetch'')"
    by (simp add: submit_answers_def)
  have eq: "run world_init [Type ''S3 bucket'', Execute, Type ''us-east-1'', Execute,
      Settle 1 (TransportFailure ''Failed to fetch'')] = world_step ?w (Settle 1 (TransportFailure ''Failed to fetch''))"
    by (simp only: run_snoc [symmetric] append_Cons append_Nil)
  have "view (world_step ?w (Settle 1 (TransportFailure ''Failed to fetch''))) =
      (view ?w)\<lparr>lines := lines (view ?w) @ [submit_error_line (TypeError ''Failed to fetch'')]\<rparr>"
    by (rule submit_failure_keeps_session [OF i g e])
  then show ?thesis unfolding eq .
qed

lemma null_questions_step:
  assumes "world_inv w" and "questions (view w) = JNull"
  shows "questions (view (world_step w e)) = JNull \<and> sent (world_step w e) = sent w"
proof -
  have acc: "accepted w \<noteq> []" using assms by (auto simp: world_inv_def)
  then have rt: "resourceType (view w) \<noteq> []" using assms(1) unfolding world_inv_def by blast
  have no_get: "\<not> (\<exists>r. GetInfo r \<in> set (inflight w))" using assms by (auto simp: world_inv_def)
  show ?thesis
  proof (cases e)
    case Execute
    then show ?thesis
      using assms(2) rt
      by (cases "blank (input (view w))")
        (simp_all add: view_start_handler sent_start_handler handleExecute_answer answer_branch_def)
  next
    case (Settle i out)
    show ?thesis
    proof (cases "i < length (inflight w)")
      case True
      then have "inflight w ! i \<in> set (inflight w)" by simp
      with no_get obtain r qs as where "inflight w ! i = GenerateScript r qs as"
        by (cases "inflight w ! i") auto
      with True Settle assms(2) show ?thesis by (simp add: submit_cont_def)
    next
      case False
      with Settle assms(2) show ?thesis by simp
    qed
  qed (simp_all add: assms onChange_def toggleTheme_def)
qed

text \<open>
  C15: if the server answers the question fetch with JSON \<open>null\<close>, the
  session is stuck for good: every later run of the handler throws on
  \<open>questions.length\<close> before it can send anything, so no request is ever
  sent again, whatever the user types and whatever settles.
\<close>

theorem null_questions_stall:
  assumes "reachable w" and "questions (view w) = JNull"
  shows "sent (run w es) = sent w"
  using assms
proof (induction es arbitrary: w)
  case Nil
  then show ?case by simp
next
  case (Cons e es)
  have inv: "world_inv w" by (rule reachable_world_inv [OF Cons.prems(1)])
  have st: "questions (view (world_step w e)) = JNull \<and> sent (world_step w e) = sent w"
    by (rule null_questions_step [OF inv Cons.prems(2)])
  have "reachable (world_step w e)" using Cons.prems(1) by (rule reachable.step)
  with st have "sent (run (world_step w e) es) = sent (world_step w e)"
    using Cons.IH by blast
  with st show ?case by simp
qed

theorem null_questions_stall_witness:
  "sent (run world_init [Type ''S3 bucket'', Execute, Settle 0 (HttpResponse 200 (Inr JNull)),
      Type ''us-east-1'', Execute, Type ''private'', Execute]) = [GetInfo ''S3 bucket'']"
proof -
  let ?w = "run world_init [Type ''S3 bucket'', Execute, Settle 0 (HttpResponse 200 (Inr JNull))]"
  have r: "reachable ?w" by (rule reachable_run [OF reachable.init])
  have q: "questions (view ?w) = JNull" by (simp add: run_eval_defs)
  have "sent (run ?w [Type ''us-east-1'', Execute, Type ''private'', Execute]) = sent ?w"
    by (rule null_questions_stall [OF r q])
  then show ?thesis by (simp add: run_append [symmetric] run_eval_defs)
qed

end
