(* ===== verification/Conversation.thy ===== *)
theory Conversation
  imports Runtime
begin

text \<open>
  The conversation as the spec describes it: one input at a time, each
  request settling before the next input (\<^const>\<open>session\<close>). The lemmas
  follow one input through \<open>handleExecute\<close> and its continuation: the
  resource type, an answer followed by another question, the last answer;
  the theorems compose them into whole conversations, the well-behaved one
  and the boundary cases (empty list, failed fetch, input after the end).
  \<open>qa_lines\<close> is the transcript a run of answers produces, each answer's
  echo followed by the next question.
\<close>

fun qa_lines :: "string list \<Rightarrow> string list \<Rightarrow> string list" where
  "qa_lines (a # as) (q # qs) = echo_line a # bot_line q # qa_lines as qs"
| "qa_lines as qs = []"

definition demo_gateway :: "request \<Rightarrow> fetch_outcome" where
  "demo_gateway r = (case r of
      GetInfo t \<Rightarrow> HttpResponse 200 (Inr (str_array [''Region?'', ''Public access?'']))
    | GenerateScript t qs as \<Rightarrow> HttpResponse 200 (Inr (JStr ''ok'')))"

lemma session_step_idle:
  assumes "inflight w = []"
  shows "view (session_step gw w x) = handle gw ((view w)\<lparr>input := x\<rparr>) \<and>
         inflight (session_step gw w x) = [] \<and>
         sent (session_step gw w x) =
           sent w @ (case snd (handleExecute ((view w)\<lparr>input := x\<rparr>)) of Awaiting r \<Rightarrow> [r] | _ \<Rightarrow> [])"
  using assms
  by (simp add: session_step_def start_handler_def Let_def handle_def onChange_def
      split: prod.split seg_end.split)

lemma session_step_first:
  assumes "inflight w = []" "resourceType (view w) = []" "\<not> blank x"
  shows "inflight (session_step gw w x) = [] \<and> sent (session_step gw w x) = sent w @ [GetInfo x] \<and>
    view (session_step gw w x) =
      apply_updates (fetch_questions_cont (gw (GetInfo x)))
        ((view w)\<lparr>lines := lines (view w) @ [echo_line x], resourceType := x, input := []\<rparr>)"
proof -
  have h: "handleExecute ((view w)\<lparr>input := x\<rparr>) =
      ([AppendLine (echo_line x), SetResourceType x, SetInput []], Awaiting (GetInfo x))"
    using assms by (simp add: handleExecute_first)
  show ?thesis
    using session_step_idle [OF assms(1), of gw x] h by (simp add: handle_def)
qed

lemma session_first_view:
  assumes "\<not> blank r"
  shows "inflight (session_step gw world_init r) = [] \<and>
    sent (session_step gw world_init r) = [GetInfo r] \<and>
    view (session_step gw world_init r) =
      apply_updates (fetch_questions_cont (gw (GetInfo r)))
        (ui_init\<lparr>lines := [welcome_line, echo_line r], input := [], resourceType := r\<rparr>)"
proof -
  have "inflight world_init = []" "resourceType (view world_init) = []"
    by (simp_all add: world_init_def ui_init_def)
  from session_step_first [OF this assms, of gw] show ?thesis
    by (simp add: world_init_def ui_init_def)
qed

lemma session_first:
  assumes "gw (GetInfo r) = HttpResponse st (Inr v)" "http_ok st" "js_items v = Some qs" "qs \<noteq> []"
    and "\<not> blank r"
  shows "inflight (session_step gw world_init r) = [] \<and>
    sent (session_step gw world_init r) = [GetInfo r] \<and>
    lines (view (session_step gw world_init r)) = [welcome_line, echo_line r, bot_line (hd qs)] \<and>
    resourceType (view (session_step gw world_init r)) = r \<and>
    questions (view (session_step gw world_init r)) = v \<and>
    currentQuestionIndex (view (session_step gw world_init r)) = 0 \<and>
    userResponses (view (session_step gw world_init r)) = []"
  using session_first_view [OF assms(5), of gw] assms(1,4) fetch_questions_cont_ok [OF assms(2,3)]
  by (simp add: ui_init_def)

lemma session_step_answer_next:
  assumes "inflight w = []" "js_items (questions (view w)) = Some qs" "resourceType (view w) \<noteq> []"
    and "Suc (currentQuestionIndex (view w)) < length qs" "\<not> blank x"
  shows "inflight (session_step gw w x) = [] \<and> sent (session_step gw w x) = sent w \<and>
    view (session_step gw w x) = (view w)\<lparr>
       lines := lines (view w) @ [echo_line x, bot_line (qs ! Suc (currentQuestionIndex (view w)))],
       input := [], userResponses := userResponses (view w) @ [x],
       currentQuestionIndex := Suc (currentQuestionIndex (view w))\<rparr>"
proof -
  let ?s = "(view w)\<lparr>input := x\<rparr>"
  have "handleExecute ?s =
      ([AppendLine (echo_line x), AppendResponse x, SetInput [], IncQuestionIndex,
        AppendLine (bot_line (qs ! Suc (currentQuestionIndex (view w))))], Finished)"
    using assms answer_branch_next [of ?s qs] by (simp add: handleExecute_answer)
  then show ?thesis
    using session_step_idle [OF assms(1), of gw x] by (simp add: handle_def)
qed

lemma session_middle:
  assumes "inflight w = []" "js_items (questions (view w)) = Some qs" "resourceType (view w) \<noteq> []"
    and "currentQuestionIndex (view w) + length xs < length qs" "\<forall>a \<in> set xs. \<not> blank a"
  shows "inflight (session gw xs w) = [] \<and> sent (session gw xs w) = sent w \<and>
    questions (view (session gw xs w)) = questions (view w) \<and>
    resourceType (view (session gw xs w)) = resourceType (view w) \<and>
    currentQuestionIndex (view (session gw xs w)) = currentQuestionIndex (view w) + length xs \<and>
    userResponses (view (session gw xs w)) = userResponses (view w) @ xs \<and>
    lines (view (session gw xs w)) =
      lines (view w) @ qa_lines xs (drop (Suc (currentQuestionIndex (view w))) qs)"
  using assms
proof (induction xs arbitrary: w)
  case Nil
  then show ?case by simp
next
  case (Cons x xs)
  let ?i = "currentQuestionIndex (view w)"
  let ?w1 = "session_step gw w x"
  have lt: "Suc ?i < length qs" using Cons.prems(4) by simp
  have w1: "inflight ?w1 = [] \<and> sent ?w1 = sent w \<and>
    view ?w1 = (view w)\<lparr>lines := lines (view w) @ [echo_line x, bot_line (qs ! Suc ?i)],
       input := [], userResponses := userResponses (view w) @ [x], currentQuestionIndex := Suc ?i\<rparr>"
    using Cons.prems lt by (intro session_step_answer_next) auto
  have ih: "inflight (session gw xs ?w1) = [] \<and> sent (session gw xs ?w1) = sent ?w1 \<and>
    questions (view (session gw xs ?w1)) = questions (view ?w1) \<and>
    resourceType (view (session gw xs ?w1)) = resourceType (view ?w1) \<and>
    currentQuestionIndex (view (session gw xs ?w1)) = currentQuestionIndex (view ?w1) + length xs \<and>
    userResponses (view (session gw xs ?w1)) = userResponses (view ?w1) @ xs \<and>
    lines (view (session gw xs ?w1)) =
      lines (view ?w1) @ qa_lines xs (drop (Suc (currentQuestionIndex (view ?w1))) qs)"
    using Cons.prems w1 by (intro Cons.IH) auto
  have d: "drop (Suc ?i) qs = qs ! Suc ?i # drop (Suc (Suc ?i)) qs"
    using lt by (simp add: Cons_nth_drop_Suc)
  show ?case using ih w1 d by simp
qed

lemma session_step_answer_last:
  assumes "inflight w = []" "js_items (questions (view w)) = Some qs" "resourceType (view w) \<noteq> []"
    and "\<not> Suc (currentQuestionIndex (view w)) < length qs" "\<not> blank a"
  shows "inflight (session_step gw w a) = [] \<and>
    sent (session_step gw w a) =
      sent w @ [GenerateScript (resourceType (view w)) (questions (view w)) (userResponses (view w) @ [a])] \<and>
    view (session_step gw w a) = (view w)\<lparr>
      lines := lines (view w) @
        [echo_line a, sending_line,
         submit_result_line (gw (GenerateScript (resourceType (view w)) (questions (view w)) (userResponses (view w) @ [a])))],
      input := [], userResponses := userResponses (view w) @ [a]\<rparr>"
proof -
  let ?s = "(view w)\<lparr>input := a\<rparr>"
  let ?r = "GenerateScript (resourceType (view w)) (questions (view w)) (userResponses (view w) @ [a])"
  have "handleExecute ?s =
      ([AppendLine (echo_line a), AppendResponse a, SetInput [], AppendLine sending_line], Awaiting ?r)"
    using assms answer_branch_last [of ?s qs] by (simp add: handleExecute_answer)
  then show ?thesis
    using session_step_idle [OF assms(1), of gw a] by (simp add: handle_def submit_cont_def)
qed

lemma session_complete:
  assumes get: "gw (GetInfo r) = HttpResponse st (Inr v)" and ok: "http_ok st"
    and items: "js_items v = Some qs" and ne: "qs \<noteq> []" and len: "length as = length qs"
    and nb: "\<not> blank r" "\<forall>a \<in> set as. \<not> blank a"
  shows "inflight (session gw (r # as) world_init) = [] \<and>
    resourceType (view (session gw (r # as) world_init)) = r \<and>
    questions (view (session gw (r # as) world_init)) = v \<and>
    Suc (currentQuestionIndex (view (session gw (r # as) world_init))) = length qs \<and>
    sent (session gw (r # as) world_init) = [GetInfo r, GenerateScript r v as] \<and>
    userResponses (view (session gw (r # as) world_init)) = as \<and>
    lines (view (session gw (r # as) world_init)) =
      [welcome_line, echo_line r, bot_line (hd qs)] @ qa_lines (butlast as) (tl qs) @
      [echo_line (last as), sending_line, submit_result_line (gw (GenerateScript r v as))]"
proof -
  let ?w1 = "session_step gw world_init r"
  let ?w2 = "session gw (butlast as) ?w1"
  have as_ne: "as \<noteq> []" using ne len by auto
  then have split: "as = butlast as @ [last as]" by simp
  have w1: "inflight ?w1 = [] \<and> sent ?w1 = [GetInfo r] \<and>
      lines (view ?w1) = [welcome_line, echo_line r, bot_line (hd qs)] \<and>
      resourceType (view ?w1) = r \<and> questions (view ?w1) = v \<and>
      currentQuestionIndex (view ?w1) = 0 \<and> userResponses (view ?w1) = []"
    by (rule session_first [of gw r st v qs, OF get ok items ne nb(1)])
  have rne: "r \<noteq> []" using nb(1) by (rule not_blank_nonempty)
  have nbb: "\<forall>a \<in> set (butlast as). \<not> blank a" using nb(2) by (meson in_set_butlastD)
  have w2: "inflight ?w2 = [] \<and> sent ?w2 = sent ?w1 \<and> questions (view ?w2) = questions (view ?w1) \<and>
    resourceType (view ?w2) = resourceType (view ?w1) \<and>
    currentQuestionIndex (view ?w2) = currentQuestionIndex (view ?w1) + length (butlast as) \<and>
    userResponses (view ?w2) = userResponses (view ?w1) @ butlast as \<and>
    lines (view ?w2) = lines (view ?w1) @ qa_lines (butlast as) (drop (Suc (currentQuestionIndex (view ?w1))) qs)"
    using w1 rne len ne nbb items by (intro session_middle) auto
  have last_nb: "\<not> blank (last as)" using nb(2) as_ne by simp
  have idx: "Suc (currentQuestionIndex (view ?w2)) = length qs"
    using w1 w2 len ne by (cases qs) auto
  have rt2: "resourceType (view ?w2) \<noteq> []" using w1 w2 rne by simp
  have eq: "session gw (r # as) world_init = session_step gw ?w2 (last as)"
    by (subst split) (simp add: session_append)
  show ?thesis
    using session_step_answer_last [of ?w2 qs "last as" gw] w1 w2 idx rt2 last_nb eq split items
    by (simp add: drop_Suc)
qed


text \<open>
  C1: a complete conversation. The server answers the question fetch with a
  non-empty list of \<open>n\<close> strings and the user gives \<open>n\<close> non-blank answers:
  exactly two requests are sent, the fetch and one submission carrying the
  resource type, the question list and the \<open>n\<close> answers in order; the
  transcript alternates echoed answers and the next question, then shows the
  sending notice and the submission's result.
\<close>

theorem conversation_happy_path:
  assumes "gw (GetInfo r) = HttpResponse st (Inr (str_array qs))" and "http_ok st"
    and "qs \<noteq> []" and "length as = length qs"
    and "\<not> blank r" and "\<forall>a \<in> set as. \<not> blank a"
  shows "sent (session gw (r # as) world_init) = [GetInfo r, GenerateScript r (str_array qs) as] \<and>
    userResponses (view (session gw (r # as) world_init)) = as \<and>
    lines (view (session gw (r # as) world_init)) =
      [welcome_line, echo_line r, bot_line (hd qs)] @ qa_lines (butlast as) (tl qs) @
      [echo_line (last as), sending_line, submit_result_line (gw (GenerateScript r (str_array qs) as))]"
  using session_complete [of gw r st "str_array qs" qs as, OF assms(1,2) js_items_str_array assms(3-6)] by blast

theorem conversation_happy_path_witness:
  "sent (session demo_gateway [''S3 bucket'', ''us-east-1'', ''private''] world_init) =
     [GetInfo ''S3 bucket'', GenerateScript ''S3 bucket'' (str_array [''Region?'', ''Public access?''])
        [''us-east-1'', ''private'']] \<and>
   userResponses (view (session demo_gateway [''S3 bucket'', ''us-east-1'', ''private''] world_init)) =
     [''us-east-1'', ''private''] \<and>
   lines (view (session demo_gateway [''S3 bucket'', ''us-east-1'', ''private''] world_init)) =
     [welcome_line, ''> S3 bucket'', ''MakeCloud: Region?'', ''> us-east-1'',
      ''MakeCloud: Public access?'', ''> private'', ''MakeCloud: Sending responses back to AI...'',
      ''MakeCloud: Successful!'']"
proof -
  have get: "demo_gateway (GetInfo ''S3 bucket'') = HttpResponse 200 (Inr (str_array [''Region?'', ''Public access?'']))"
    by (simp add: demo_gateway_def)
  have ok: "http_ok 200" by (simp add: http_ok_def)
  have nb: "\<not> blank ''S3 bucket''" "\<forall>a \<in> set [''us-east-1'', ''private'']. \<not> blank a"
    by (simp_all add: js_trim_def js_whitespace_def)
  show ?thesis
    using conversation_happy_path [of demo_gateway "''S3 bucket''" 200 "[''Region?'', ''Public access?'']"
        "[''us-east-1'', ''private'']", OF get ok _ _ nb]
    by (simp add: demo_gateway_def echo_line_def bot_line_def sending_line_def submit_result_line_def
        submit_answers_def http_ok_def success_line_def)
qed


lemma str_array_Nil: "str_array [] = JArr []"
  by (simp add: str_array_def)

text \<open>
  C10: the boundary case the spec leaves open. When the server answers the
  question fetch with an empty list, no question is shown, and the next
  non-blank input is submitted at once as the only answer, with an empty
  question list.
\<close>

theorem empty_question_list_submits_next_input:
  assumes get: "gw (GetInfo r) = HttpResponse st (Inr (str_array []))" and ok: "http_ok st"
    and nb: "\<not> blank r" "\<not> blank a"
  shows "sent (session gw [r, a] world_init) = [GetInfo r, GenerateScript r (str_array []) [a]] \<and>
    lines (view (session gw [r, a] world_init)) =
      [welcome_line, echo_line r, echo_line a, sending_line,
       submit_result_line (gw (GenerateScript r (str_array []) [a]))]"
proof -
  let ?w1 = "session_step gw world_init r"
  have w1: "inflight ?w1 = [] \<and> sent ?w1 = [GetInfo r] \<and>
      view ?w1 = ui_init\<lparr>lines := [welcome_line, echo_line r], input := [], resourceType := r,
                         questions := str_array []\<rparr>"
    using session_first_view [OF nb(1), of gw] get fetch_questions_cont_ok [OF ok js_items_str_array [of "[]"]]
    by simp
  have rne: "r \<noteq> []" using nb(1) by (rule not_blank_nonempty)
  show ?thesis
    using session_step_answer_last [of ?w1 "[]" a gw] w1 rne nb(2)
    by (simp add: ui_init_def)
qed

theorem empty_question_list_submits_next_input_witness:
  "sent (session (\<lambda>q. HttpResponse 200 (Inr (str_array []))) [''S3 bucket'', ''us-east-1''] world_init) =
     [GetInfo ''S3 bucket'', GenerateScript ''S3 bucket'' (str_array []) [''us-east-1'']]"
proof -
  have get: "(\<lambda>q. HttpResponse 200 (Inr (str_array []))) (GetInfo ''S3 bucket'') =
      HttpResponse 200 (Inr (str_array []))" by simp
  have ok: "http_ok 200" by (simp add: http_ok_def)
  have nb: "\<not> blank ''S3 bucket''" "\<not> blank ''us-east-1''"
    by (simp_all add: js_trim_def js_whitespace_def)
  show ?thesis
    using empty_question_list_submits_next_input [OF get ok nb] by blast
qed

text \<open>
  C11: a failed question fetch (transport failure, non-2xx status or a body
  that is not JSON) shows the error, but the resource type stays set: the
  next non-blank input is submitted at once as the only answer with an empty
  question list, where the spec says the conversation stalls.
\<close>

theorem fetch_failure_then_submit:
  assumes err: "fetch_questions (gw (GetInfo r)) = Inl e" and nb: "\<not> blank r" "\<not> blank a"
  shows "sent (session gw [r, a] world_init) = [GetInfo r, GenerateScript r (JArr []) [a]] \<and>
    resourceType (view (session gw [r, a] world_init)) = r \<and>
    lines (view (session gw [r, a] world_init)) =
      [welcome_line, echo_line r, fetch_error_line e, echo_line a, sending_line,
       submit_result_line (gw (GenerateScript r (JArr []) [a]))]"
proof -
  let ?w1 = "session_step gw world_init r"
  have w1: "inflight ?w1 = [] \<and> sent ?w1 = [GetInfo r] \<and>
      view ?w1 = ui_init\<lparr>lines := [welcome_line, echo_line r, fetch_error_line e], input := [],
                         resourceType := r\<rparr>"
    using session_first_view [OF nb(1), of gw] err by (simp add: fetch_questions_cont_error)
  have q: "questions (view ?w1) = str_array []" using w1 by (simp add: ui_init_def str_array_Nil)
  have rne: "r \<noteq> []" using nb(1) by (rule not_blank_nonempty)
  show ?thesis
    using session_step_answer_last [of ?w1 "[]" a gw] w1 q rne nb(2)
    by (simp add: ui_init_def str_array_Nil)
qed

theorem fetch_failure_then_submit_witness:
  "sent (session (\<lambda>q. HttpResponse 503 (Inr JNull)) [''S3 bucket'', ''us-east-1''] world_init) =
     [GetInfo ''S3 bucket'', GenerateScript ''S3 bucket'' (JArr []) [''us-east-1'']]"
proof -
  have err: "fetch_questions ((\<lambda>q. HttpResponse 503 (Inr JNull)) (GetInfo ''S3 bucket'')) =
      Inl (Error ''HTTP error! Status: 503'')"
    by (simp add: fetch_questions_def http_ok_def int_to_str_def nat_to_str.simps digit_char_def)
  have nb: "\<not> blank ''S3 bucket''" "\<not> blank ''us-east-1''"
    by (simp_all add: js_trim_def js_whitespace_def)
  show ?thesis
    using fetch_failure_then_submit [OF err nb] by blast
qed

text \<open>
  C9: the handler has no final state. After a complete conversation one more
  non-blank input is taken as a further answer and triggers a second
  submission, now with one answer more than there are questions.
\<close>

theorem resubmit_after_complete:
  assumes "gw (GetInfo r) = HttpResponse st (Inr (str_array qs))" and "http_ok st"
    and "qs \<noteq> []" and "length as = length qs"
    and "\<not> blank r" and "\<forall>a \<in> set as. \<not> blank a" and nbb: "\<not> blank b"
  shows "sent (session gw (r # as @ [b]) world_init) =
      [GetInfo r, GenerateScript r (str_array qs) as, GenerateScript r (str_array qs) (as @ [b])] \<and>
    length (userResponses (view (session gw (r # as @ [b]) world_init))) = Suc (length qs)"
proof -
  let ?w = "session gw (r # as) world_init"
  have c: "inflight ?w = [] \<and> resourceType (view ?w) = r \<and> questions (view ?w) = str_array qs \<and>
    Suc (currentQuestionIndex (view ?w)) = length qs \<and>
    sent ?w = [GetInfo r, GenerateScript r (str_array qs) as] \<and> userResponses (view ?w) = as"
    using session_complete [of gw r st "str_array qs" qs as, OF assms(1,2) js_items_str_array assms(3-6)] by blast
  have rne: "r \<noteq> []" using assms(5) by (rule not_blank_nonempty)
  have eq: "session gw (r # as @ [b]) world_init = session_step gw ?w b"
    by (simp add: session_append [of gw "r # as" "[b]", simplified])
  show ?thesis
    using session_step_answer_last [of ?w qs b gw] c rne nbb eq assms(4) by simp
qed

theorem resubmit_after_complete_witness:
  "sent (session demo_gateway [''S3 bucket'', ''us-east-1'', ''private'', ''again''] world_init) =
     [GetInfo ''S3 bucket'', GenerateScript ''S3 bucket'' (str_array [''Region?'', ''Public access?''])
        [''us-east-1'', ''private''],
      GenerateScript ''S3 bucket'' (str_array [''Region?'', ''Public access?''])
        [''us-east-1'', ''private'', ''again'']]"
proof -
  have get: "demo_gateway (GetInfo ''S3 bucket'') = HttpResponse 200 (Inr (str_array [''Region?'', ''Public access?'']))"
    by (simp add: demo_gateway_def)
  have ok: "http_ok 200" by (simp add: http_ok_def)
  have nb: "\<not> blank ''S3 bucket''" "\<forall>a \<in> set [''us-east-1'', ''private'']. \<not> blank a" "\<not> blank ''again''"
    by (simp_all add: js_trim_def js_whitespace_def)
  show ?thesis
    using resubmit_after_complete [of demo_gateway "''S3 bucket''" 200 "[''Region?'', ''Public access?'']"
        "[''us-east-1'', ''private'']" "''again''", OF get ok _ _ nb] by simp
qed

text \<open>
  C19: the question list is not validated. When the server answers the
  question fetch with a JSON string of \<open>n\<close> characters instead of a list,
  the component asks its characters one by one as \<open>n\<close> questions and
  submits the string as the question list with the \<open>n\<close> answers; the spec
  treats such a body as a decode error.
\<close>

theorem string_questions_asked_per_character:
  assumes "gw (GetInfo r) = HttpResponse st (Inr (JStr s))" and "http_ok st"
    and "s \<noteq> []" and "length as = length s"
    and "\<not> blank r" and "\<forall>a \<in> set as. \<not> blank a"
  shows "sent (session gw (r # as) world_init) = [GetInfo r, GenerateScript r (JStr s) as] \<and>
    lines (view (session gw (r # as) world_init)) =
      [welcome_line, echo_line r, bot_line [hd s]] @ qa_lines (butlast as) (map (\<lambda>c. [c]) (tl s)) @
      [echo_line (last as), sending_line, submit_result_line (gw (GenerateScript r (JStr s) as))]"
proof -
  have items: "js_items (JStr s) = Some (map (\<lambda>c. [c]) s)" by simp
  have ne: "map (\<lambda>c. [c]) s \<noteq> []" and len: "length as = length (map (\<lambda>c. [c]) s)"
    using assms(3,4) by simp_all
  show ?thesis
    using session_complete [of gw r st "JStr s" "map (\<lambda>c. [c]) s" as,
        OF assms(1,2) items ne len assms(5,6)] assms(3)
    by (simp add: hd_map map_tl)
qed

theorem string_questions_asked_per_character_witness:
  "lines (view (session (\<lambda>q. HttpResponse 200 (Inr (JStr ''ab''))) [''S3 bucket'', ''x'', ''y''] world_init)) =
     [welcome_line, ''> S3 bucket'', ''MakeCloud: a'', ''> x'', ''MakeCloud: b'', ''> y'',
      ''MakeCloud: Sending responses back to AI...'', ''MakeCloud: Successful!'']"
proof -
  have get: "(\<lambda>q. HttpResponse 200 (Inr (JStr ''ab''))) (GetInfo ''S3 bucket'') =
      HttpResponse 200 (Inr (JStr ''ab''))" by simp
  have ok: "http_ok 200" by (simp add: http_ok_def)
  have nb: "\<not> blank ''S3 bucket''" "\<forall>a \<in> set [''x'', ''y'']. \<not> blank a"
    by (simp_all add: js_trim_def js_whitespace_def)
  show ?thesis
    using string_questions_asked_per_character [OF get ok _ _ nb]
    by (simp add: echo_line_def bot_line_def sending_line_def submit_result_line_def
        submit_answers_def http_ok_def success_line_def)
qed

end
