(* ===== verification/Session_Spec.thy ===== *)
theory Session_Spec
  imports Conversation
begin

text \<open>
  The controller as the spec describes it (sections 3 and 4.1): a session
  with a phase (the tagged union of section 9, plus \<open>Stalled\<close> for the
  state the spec says has no defined transition), the resource type, the
  question list, the answers and the index; a gateway with the two
  operations of section 4.2 and their error kinds; and the spec's
  transition on one input. The code is related to it by an abstraction of
  the UI state (\<open>abs_ui\<close>: the phase is read off the fields, and
  \<open>Done\<close>/\<open>Submitting\<close> off the last transcript line, the only record the
  code keeps of the submission's outcome) and of the gateway
  (\<open>spec_gw\<close>: a body that is not a JSON array of strings is a
  \<open>DecodeError\<close>). \<open>spec_domain\<close> is what holds between inputs of a
  sequential session while the spec is waiting for input; \<open>spec_run\<close> runs
  the spec over a sequence of inputs and \<open>spec_live\<close> says each of them
  arrives while the spec waits for one.
\<close>

datatype phase = AwaitingResourceType | AwaitingAnswers | Submitting | Done | Stalled

record spec_state =
  sp_phase :: phase
  sp_resource :: "string option"
  sp_questions :: "string list"
  sp_answers :: "string list"
  sp_index :: nat

datatype gw_error = NetworkError | DecodeError

datatype spec_call = FetchQuestions string | SubmitAnswers string "string list" "string list"

record spec_gateway =
  g_fetch :: "string \<Rightarrow> gw_error + string list"
  g_submit :: "string \<Rightarrow> string list \<Rightarrow> string list \<Rightarrow> gw_error + unit"

definition spec_init :: spec_state where
  "spec_init = \<lparr>sp_phase = AwaitingResourceType, sp_resource = None, sp_questions = [],
                sp_answers = [], sp_index = 0\<rparr>"

definition spec_input :: "spec_gateway \<Rightarrow> spec_state \<Rightarrow> string \<Rightarrow> spec_state \<times> spec_call list" where
  "spec_input g st x =
     (if blank x then (st, [])
      else case sp_phase st of
        AwaitingResourceType \<Rightarrow>
          (case g_fetch g x of
             Inr qs \<Rightarrow>
               (if qs \<noteq> [] then (st\<lparr>sp_phase := AwaitingAnswers, sp_resource := Some x, sp_questions := qs\<rparr>,
                                 [FetchQuestions x])
                else (st\<lparr>sp_phase := Stalled, sp_resource := Some x\<rparr>, [FetchQuestions x]))
           | Inl e \<Rightarrow> (st\<lparr>sp_phase := Stalled, sp_resource := Some x\<rparr>, [FetchQuestions x]))
      | AwaitingAnswers \<Rightarrow>
          (let ans = sp_answers st @ [x]
           in if Suc (sp_index st) < length (sp_questions st)
              then (st\<lparr>sp_answers := ans, sp_index := Suc (sp_index st)\<rparr>, [])
              else (let r = the (sp_resource st) in
                    (case g_submit g r (sp_questions st) ans of
                       Inr u \<Rightarrow> st\<lparr>sp_phase := Done, sp_answers := ans\<rparr>
                     | Inl e \<Rightarrow> st\<lparr>sp_phase := Submitting, sp_answers := ans\<rparr>,
                     [SubmitAnswers r (sp_questions st) ans])))
      | _ \<Rightarrow> (st, []))"

fun str_list_of :: "jsval \<Rightarrow> string list option" where
  "str_list_of (JArr xs) = js_strings xs"
| "str_list_of v = None"

fun fetch_error_kind :: "js_error \<Rightarrow> gw_error" where
  "fetch_error_kind (SyntaxError m) = DecodeError"
| "fetch_error_kind (TypeError m) = NetworkError"
| "fetch_error_kind (Error m) = NetworkError"

definition spec_gw :: "(request \<Rightarrow> fetch_outcome) \<Rightarrow> spec_gateway" where
  "spec_gw gw =
     \<lparr>g_fetch = (\<lambda>r. case fetch_questions (gw (GetInfo r)) of
                       Inl e \<Rightarrow> Inl (fetch_error_kind e)
                     | Inr v \<Rightarrow> (case str_list_of v of Some qs \<Rightarrow> Inr qs | None \<Rightarrow> Inl DecodeError)),
      g_submit = (\<lambda>r qs as. case submit_answers (gw (GenerateScript r (str_array qs) as)) of
                             Inl e \<Rightarrow> Inl NetworkError | Inr u \<Rightarrow> Inr ())\<rparr>"

fun code_request :: "spec_call \<Rightarrow> request" where
  "code_request (FetchQuestions r) = GetInfo r"
| "code_request (SubmitAnswers r qs as) = GenerateScript r (str_array qs) as"

definition abs_phase :: "ui \<Rightarrow> phase" where
  "abs_phase s =
     (if resourceType s = [] then AwaitingResourceType
      else case str_list_of (questions s) of
             Some qs \<Rightarrow>
               (if qs = [] then Stalled
                else if length (userResponses s) < length qs then AwaitingAnswers
                else if last (lines s) = success_line then Done else Submitting)
           | None \<Rightarrow> Stalled)"

definition abs_ui :: "ui \<Rightarrow> spec_state" where
  "abs_ui s =
     \<lparr>sp_phase = abs_phase s,
      sp_resource = (if resourceType s = [] then None else Some (resourceType s)),
      sp_questions = (case str_list_of (questions s) of Some qs \<Rightarrow> qs | None \<Rightarrow> []),
      sp_answers = userResponses s,
      sp_index = currentQuestionIndex s\<rparr>"

definition spec_domain :: "world \<Rightarrow> bool" where
  "spec_domain w \<longleftrightarrow>
     inflight w = [] \<and>
     (resourceType (view w) = [] \<longrightarrow>
        userResponses (view w) = [] \<and> currentQuestionIndex (view w) = 0 \<and> questions (view w) = JArr []) \<and>
     (abs_phase (view w) = AwaitingAnswers \<longrightarrow>
        currentQuestionIndex (view w) = length (userResponses (view w)))"

definition gw_decodes :: "(request \<Rightarrow> fetch_outcome) \<Rightarrow> string \<Rightarrow> bool" where
  "gw_decodes gw x \<longleftrightarrow> (case fetch_questions (gw (GetInfo x)) of Inr v \<Rightarrow> str_list_of v \<noteq> None | Inl e \<Rightarrow> True)"

text \<open>
  Runs of the spec's controller over a sequence of inputs, and the runs in
  which every input arrives while the spec is waiting for one.
\<close>

fun spec_run :: "spec_gateway \<Rightarrow> spec_state \<Rightarrow> string list \<Rightarrow> spec_state \<times> spec_call list" where
  "spec_run g st [] = (st, [])"
| "spec_run g st (x # xs) =
     (let (st1, c1) = spec_input g st x; (st2, c2) = spec_run g st1 xs in (st2, c1 @ c2))"

fun spec_live :: "spec_gateway \<Rightarrow> spec_state \<Rightarrow> string list \<Rightarrow> bool" where
  "spec_live g st [] = True"
| "spec_live g st (x # xs) =
     (sp_phase st \<in> {AwaitingResourceType, AwaitingAnswers} \<and> spec_live g (fst (spec_input g st x)) xs)"

lemma str_list_of_Some: "str_list_of v = Some qs \<longleftrightarrow> v = str_array qs"
  by (cases v) (auto simp: str_array_def js_strings_Some)

lemma str_list_of_str_array [simp]: "str_list_of (str_array qs) = Some qs"
  by (simp add: str_list_of_Some)


lemma submit_error_not_success: "submit_error_line e \<noteq> success_line"
  by (simp add: submit_error_line_def success_line_def bot_line_def)

lemma submit_result_success_iff:
  "submit_result_line out = success_line \<longleftrightarrow> (\<exists>u. submit_answers out = Inr u)"
  by (auto simp: submit_result_line_def submit_error_not_success split: sum.split)

lemma session_step_blank:
  "inflight w = [] \<Longrightarrow> blank x \<Longrightarrow> session_step gw w x = w\<lparr>view := (view w)\<lparr>input := x\<rparr>\<rparr>"
  by (simp add: session_step_def start_handler_def Let_def onChange_def)

lemma abs_ui_input [simp]: "abs_ui (s\<lparr>input := x\<rparr>) = abs_ui s"
  by (simp add: abs_ui_def abs_phase_def split: option.split)

lemma abs_phase_input [simp]: "abs_phase (s\<lparr>input := x\<rparr>) = abs_phase s"
  by (simp add: abs_phase_def split: option.split)

lemma refines_blank:
  assumes "spec_domain w" "blank x"
  shows "abs_ui (view (session_step gw w x)) = fst (spec_input g (abs_ui (view w)) x) \<and>
    sent (session_step gw w x) = sent w @ map code_request (snd (spec_input g (abs_ui (view w)) x)) \<and>
    spec_domain (session_step gw w x)"
proof -
  have i: "inflight w = []" using assms(1) by (simp add: spec_domain_def)
  have "spec_domain (w\<lparr>view := (view w)\<lparr>input := x\<rparr>\<rparr>)"
    using assms(1) by (simp add: spec_domain_def)
  then show ?thesis
    using assms(2) by (simp add: session_step_blank [OF i assms(2)] spec_input_def)
qed

lemma refines_resource:
  assumes dom: "spec_domain w" and ph: "abs_phase (view w) = AwaitingResourceType"
    and nb: "\<not> blank x" and dec: "gw_decodes gw x"
  shows "abs_ui (view (session_step gw w x)) = fst (spec_input (spec_gw gw) (abs_ui (view w)) x) \<and>
    sent (session_step gw w x) = sent w @ map code_request (snd (spec_input (spec_gw gw) (abs_ui (view w)) x)) \<and>
    spec_domain (session_step gw w x)"
proof -
  have rt: "resourceType (view w) = []"
    using ph by (auto simp: abs_phase_def split: option.splits if_splits)
  with dom have i: "inflight w = []" and f0: "userResponses (view w) = []"
    "currentQuestionIndex (view w) = 0" "questions (view w) = JArr []"
    by (auto simp: spec_domain_def)
  have xne: "x \<noteq> []" using nb by (rule not_blank_nonempty)
  have aw: "abs_ui (view w) = spec_init"
    using rt f0 by (simp add: abs_ui_def abs_phase_def spec_init_def)
  note first = session_step_first [OF i rt nb, of gw]
  show ?thesis
  proof (cases "fetch_questions (gw (GetInfo x))")
    case (Inl e)
    have g: "g_fetch (spec_gw gw) x = Inl (fetch_error_kind e)"
      using Inl by (simp add: spec_gw_def)
    show ?thesis
      using first Inl g f0 xne nb aw
      by (simp add: fetch_questions_cont_error abs_ui_def abs_phase_def spec_input_def spec_init_def
          spec_domain_def)
  next
    case (Inr v)
    then obtain qs where v: "v = str_array qs"
      using dec by (auto simp: gw_decodes_def str_list_of_Some)
    have g: "g_fetch (spec_gw gw) x = Inr qs"
      using Inr v by (simp add: spec_gw_def)
    have c: "fetch_questions_cont (gw (GetInfo x)) =
        SetQuestions (str_array qs) #
          (if qs = [] then [SetInput []] else [AppendLine (bot_line (hd qs)), SetInput []])"
      using Inr v by (cases qs) (simp_all add: fetch_questions_cont_def)
    show ?thesis
      using first c g f0 xne nb aw
      by (simp add: abs_ui_def abs_phase_def spec_input_def spec_init_def spec_domain_def)
  qed
qed


lemma refines_answer:
  assumes dom: "spec_domain w" and ph: "abs_phase (view w) = AwaitingAnswers" and nb: "\<not> blank x"
  shows "abs_ui (view (session_step gw w x)) = fst (spec_input (spec_gw gw) (abs_ui (view w)) x) \<and>
    sent (session_step gw w x) = sent w @ map code_request (snd (spec_input (spec_gw gw) (abs_ui (view w)) x)) \<and>
    spec_domain (session_step gw w x)"
proof -
  from ph obtain qs where rt: "resourceType (view w) \<noteq> []" and q: "questions (view w) = str_array qs"
      and ne: "qs \<noteq> []" and lt: "length (userResponses (view w)) < length qs"
    by (auto simp: abs_phase_def str_list_of_Some split: option.splits if_splits)
  have i: "inflight w = []" and idx: "currentQuestionIndex (view w) = length (userResponses (view w))"
    using dom ph by (auto simp: spec_domain_def)
  have qi: "js_items (questions (view w)) = Some qs" using q by simp
  have aw: "abs_ui (view w) =
      \<lparr>sp_phase = AwaitingAnswers, sp_resource = Some (resourceType (view w)), sp_questions = qs,
       sp_answers = userResponses (view w), sp_index = currentQuestionIndex (view w)\<rparr>"
    using ph rt q by (simp add: abs_ui_def)
  show ?thesis
  proof (cases "Suc (currentQuestionIndex (view w)) < length qs")
    case True
    show ?thesis
      using session_step_answer_next [OF i qi rt True nb, of gw] aw True idx rt q ne nb
      by (simp add: abs_ui_def abs_phase_def spec_input_def spec_domain_def)
  next
    case False
    let ?r = "GenerateScript (resourceType (view w)) (str_array qs) (userResponses (view w) @ [x])"
    have len: "Suc (length (userResponses (view w))) = length qs" using lt idx False by simp
    have g: "g_submit (spec_gw gw) (resourceType (view w)) qs (userResponses (view w) @ [x]) =
        (case submit_answers (gw ?r) of Inl e \<Rightarrow> Inl NetworkError | Inr u \<Rightarrow> Inr ())"
      by (simp add: spec_gw_def)
    show ?thesis
      using session_step_answer_last [OF i qi rt False nb, of gw] aw False idx rt q ne nb len g
      by (cases "submit_answers (gw ?r)")
         (simp_all add: abs_ui_def abs_phase_def spec_input_def spec_domain_def submit_result_success_iff Let_def)
  qed
qed

lemma session_step_refines:
  assumes "spec_domain w" and "sp_phase (abs_ui (view w)) \<in> {AwaitingResourceType, AwaitingAnswers}"
    and "gw_decodes gw x"
  shows "abs_ui (view (session_step gw w x)) = fst (spec_input (spec_gw gw) (abs_ui (view w)) x) \<and>
    sent (session_step gw w x) = sent w @ map code_request (snd (spec_input (spec_gw gw) (abs_ui (view w)) x)) \<and>
    spec_domain (session_step gw w x)"
proof (cases "blank x")
  case True
  then show ?thesis using refines_blank [OF assms(1)] by blast
next
  case False
  have "abs_phase (view w) = AwaitingResourceType \<or> abs_phase (view w) = AwaitingAnswers"
    using assms(2) by (simp add: abs_ui_def)
  then show ?thesis
    using refines_resource [OF assms(1) _ False assms(3)] refines_answer [OF assms(1) _ False] by blast
qed

text \<open>
  C18: the sequential code refines the spec's controller on every session in
  which each input arrives while the spec waits for input (the resource
  type or an answer), provided the server's question list, if any, is a
  JSON array of strings: the abstraction of the state after the inputs is
  the state the spec's run reaches, the requests sent are exactly the
  spec's gateway calls in order, and the code stays in the domain of the
  abstraction.
\<close>

theorem session_refines_spec:
  assumes "spec_domain w" and "spec_live (spec_gw gw) (abs_ui (view w)) xs"
    and "\<forall>x \<in> set xs. gw_decodes gw x"
  shows "abs_ui (view (session gw xs w)) = fst (spec_run (spec_gw gw) (abs_ui (view w)) xs) \<and>
    sent (session gw xs w) = sent w @ map code_request (snd (spec_run (spec_gw gw) (abs_ui (view w)) xs)) \<and>
    spec_domain (session gw xs w)"
  using assms
proof (induction xs arbitrary: w)
  case Nil
  then show ?case by simp
next
  case (Cons x xs)
  let ?g = "spec_gw gw"
  let ?w1 = "session_step gw w x"
  have ph: "sp_phase (abs_ui (view w)) \<in> {AwaitingResourceType, AwaitingAnswers}"
    and live: "spec_live ?g (fst (spec_input ?g (abs_ui (view w)) x)) xs"
    using Cons.prems(2) by simp_all
  have step: "abs_ui (view ?w1) = fst (spec_input ?g (abs_ui (view w)) x) \<and>
      sent ?w1 = sent w @ map code_request (snd (spec_input ?g (abs_ui (view w)) x)) \<and> spec_domain ?w1"
    using session_step_refines [OF Cons.prems(1) ph] Cons.prems(3) by simp
  have ih: "abs_ui (view (session gw xs ?w1)) = fst (spec_run ?g (abs_ui (view ?w1)) xs) \<and>
      sent (session gw xs ?w1) = sent ?w1 @ map code_request (snd (spec_run ?g (abs_ui (view ?w1)) xs)) \<and>
      spec_domain (session gw xs ?w1)"
    using Cons.IH step live Cons.prems(3) by simp
  show ?case using ih step by (simp split: prod.split)
qed

theorem session_refines_spec_witness:
  "abs_ui (view (session demo_gateway [''S3 bucket'', ''us-east-1'', ''private''] world_init)) =
     \<lparr>sp_phase = Done, sp_resource = Some ''S3 bucket'',
      sp_questions = [''Region?'', ''Public access?''], sp_answers = [''us-east-1'', ''private''], sp_index = 1\<rparr>"
proof -
  let ?xs = "[''S3 bucket'', ''us-east-1'', ''private'']"
  have a0: "abs_ui (view world_init) = spec_init"
    by (simp add: abs_ui_def abs_phase_def world_init_def ui_init_def spec_init_def)
  have d: "spec_domain world_init" by (simp add: spec_domain_def world_init_def ui_init_def)
  have g: "spec_gw demo_gateway = \<lparr>g_fetch = (\<lambda>r. Inr [''Region?'', ''Public access?'']), g_submit = (\<lambda>r qs as. Inr ())\<rparr>"
    by (simp add: spec_gw_def demo_gateway_def fetch_questions_def submit_answers_def http_ok_def)
  have l: "spec_live (spec_gw demo_gateway) (abs_ui (view world_init)) ?xs"
    by (simp add: a0 g spec_input_def spec_init_def js_trim_def js_whitespace_def)
  have dec: "\<forall>x \<in> set ?xs. gw_decodes demo_gateway x"
    by (simp add: gw_decodes_def demo_gateway_def fetch_questions_def http_ok_def)
  have "abs_ui (view (session demo_gateway ?xs world_init)) =
      fst (spec_run (spec_gw demo_gateway) (abs_ui (view world_init)) ?xs)"
    using session_refines_spec [OF d l dec] by blast
  then show ?thesis
    by (simp add: a0 g spec_input_def spec_init_def js_trim_def js_whitespace_def Let_def)
qed

end
