(* ===== verification/Controller_V1.thy ===== *)
theory Controller_V1
  imports Controller
begin

text \<open>
  The older revision of the component, \<open>page_20250119072805.tsx\<close>. Its
  handler (lines 22--128) is the current one with two differences: the
  answer branch also builds \<open>concatenatedAnswers\<close> (lines 82--85), a string
  nothing reads, and after a successful submission it reads the response
  body as JSON and shows it (lines 113--117) instead of a fixed
  \<open>Successful!\<close> line. (As committed, line 107 repeats \<open>);\<close>, so this
  file does not parse; the model is of the handler its other lines spell
  out.)
\<close>

text \<open>\<open>userResponses.concat(input).map((a, i) => `Q${i + 1}: ${a}`).join(", ")\<close>\<close>

definition concatenated_answers :: "string list \<Rightarrow> string \<Rightarrow> string" where
  "concatenated_answers rs x =
     join_with '', '' (map (\<lambda>(i, a). ''Q'' @ nat_to_str (Suc i) @ '': '' @ a) (enumerate 0 (rs @ [x])))"

text \<open>Lines 68--90: the same branches; the dead string has no effect.\<close>

definition handleExecute_v1 :: "ui \<Rightarrow> segment" where
  "handleExecute_v1 s =
     (if js_trim (input s) = [] then ([], Finished)
      else
        (let (us, e) =
               (if resourceType s = [] then resource_branch s
                else (let unused = concatenated_answers (userResponses s) (input s) in answer_branch s))
         in (AppendLine (echo_line (input s)) # us, e)))"

text \<open>Lines 109--124: the response body is shown through a template literal.\<close>

definition submit_result_line_v1 :: "fetch_outcome \<Rightarrow> string" where
  "submit_result_line_v1 out =
     (case submit_answers_v1 out of
        Inl e \<Rightarrow> submit_error_line e
      | Inr v \<Rightarrow> bot_line (js_to_string v))"

definition submit_cont_v1 :: "fetch_outcome \<Rightarrow> update list" where
  "submit_cont_v1 out = [AppendLine (submit_result_line_v1 out)]"

fun resume_v1 :: "request \<Rightarrow> fetch_outcome \<Rightarrow> update list" where
  "resume_v1 (GetInfo r) out = fetch_questions_cont out"
| "resume_v1 (GenerateScript r qs as) out = submit_cont_v1 out"

definition handle_v1 :: "(request \<Rightarrow> fetch_outcome) \<Rightarrow> ui \<Rightarrow> ui" where
  "handle_v1 gw s =
     (case handleExecute_v1 s of
        (us, Awaiting r) \<Rightarrow> apply_updates (resume_v1 r (gw r)) (apply_updates us s)
      | (us, e) \<Rightarrow> apply_updates us s)"

subsection \<open>The two revisions compared\<close>

text \<open>
  C16: after a submission the server accepted (a 2xx status), the current
  revision shows the fixed success line whatever the body, while the older
  one shows the body as \<open>${result}\<close> prints it: an object reply, such as
  \<open>{"script": ...}\<close>, as \<open>[object Object]\<close>, and a body that is not JSON
  as a failure to send, with the parser's \<open>SyntaxError\<close>, although the
  answers were delivered.
\<close>

theorem older_revision_result_lines:
  assumes "http_ok st"
  shows "submit_result_line (HttpResponse st b) = ''MakeCloud: Successful!'' \<and>
    submit_result_line_v1 (HttpResponse st b) =
      (case b of
         Inl m \<Rightarrow> ''MakeCloud: Error sending answers. SyntaxError: '' @ m
       | Inr (JObj kvs) \<Rightarrow> ''MakeCloud: [object Object]''
       | Inr v \<Rightarrow> ''MakeCloud: '' @ js_to_string v)"
  using assms
  by (auto simp: submit_result_line_v1_def submit_result_line_def submit_answers_v1_def
      submit_answers_def bot_line_def success_line_def submit_error_line_def
      split: sum.split jsval.split)

theorem older_revision_result_lines_witness:
  "submit_result_line (HttpResponse 201 (Inr (JObj [(''script'', JStr ''terraform {}'')]))) =
     ''MakeCloud: Successful!'' \<and>
   submit_result_line_v1 (HttpResponse 201 (Inr (JObj [(''script'', JStr ''terraform {}'')]))) =
     ''MakeCloud: [object Object]'' \<and>
   submit_result_line_v1 (HttpResponse 200 (Inl ''Unexpected token'')) =
     ''MakeCloud: Error sending answers. SyntaxError: Unexpected token''"
proof -
  have "http_ok 201" "http_ok 200" by (simp_all add: http_ok_def)
  from older_revision_result_lines [OF this(1), of "Inr (JObj [(''script'', JStr ''terraform {}'')])"]
       older_revision_result_lines [OF this(2), of "Inl ''Unexpected token''"]
  show ?thesis by simp
qed

end
