(* ===== verification/Render.thy ===== *)
theory Render
  imports Runtime
begin

text \<open>
  The presentation: the JSX both revisions return, as the element tree React
  renders from the UI state, and the DOM events the user produces on it.
  \<open>render\<close> translates the current revision's JSX (lines 123--242),
  \<open>render_v1\<close> the older one's (lines 132--198); every element keeps its tag,
  its attributes (class names with the theme chosen as the template literals
  choose it, the \<open>style\<close> object written as its key/value pairs separated by semicolons, \<open>value\<close>,
  \<open>key\<close>, \<open>ref\<close>) and its event props. A DOM event is dispatched at a path
  of child indices and bubbles from the target to the root, running each
  listener whose prop matches the event; the arrow functions in the props
  (\<open>action\<close>) become the runtime's events, so \<open>dom_step\<close> composes the
  rendered page with \<^const>\<open>world_step\<close>. The \<open><style jsx>\<close> block
  (lines 135--144) is not part of the tree: styled-jsx compiles it into a
  stylesheet outside the component's DOM. The effect on \<open>lines\<close>
  (lines 24--26) only sets the transcript's scroll position, which the
  tree does not hold.
\<close>

subsection \<open>Elements, events and listeners\<close>

datatype dom_event = Click | Change string | KeyDown string

text \<open>The arrow functions the JSX installs as event props.\<close>

datatype action =
    ToggleThemeProp
  | SetInputFromTarget
  | ExecuteOnEnter
  | ExecuteOnClick

datatype node =
    Elem string "(string \<times> string) list" "(string \<times> action) list" "node list"
  | Text string

fun listens :: "string \<Rightarrow> dom_event \<Rightarrow> bool" where
  "listens p Click = (p = ''onClick'')"
| "listens p (Change v) = (p = ''onChange'')"
| "listens p (KeyDown k) = (p = ''onKeyDown'')"

fun act :: "action \<Rightarrow> dom_event \<Rightarrow> event option" where
  "act ToggleThemeProp ev = Some Toggle"
| "act SetInputFromTarget (Change v) = Some (Type v)"
| "act SetInputFromTarget ev = None"
| "act ExecuteOnEnter (KeyDown k) = (if k = ''Enter'' then Some Execute else None)"
| "act ExecuteOnEnter ev = None"
| "act ExecuteOnClick ev = Some Execute"

fun fire :: "string \<times> action \<Rightarrow> dom_event \<Rightarrow> event option" where
  "fire (p, a) ev = (if listens p ev then act a ev else None)"

text \<open>The listeners an event at a path reaches, target first, then its ancestors.\<close>

fun bubble :: "node \<Rightarrow> nat list \<Rightarrow> (string \<times> action) list option" where
  "bubble (Elem t as hs cs) [] = Some hs"
| "bubble (Elem t as hs cs) (i # p) =
     (if i < length cs then map_option (\<lambda>l. l @ hs) (bubble (cs ! i) p) else None)"
| "bubble (Text s) [] = Some []"
| "bubble (Text s) (i # p) = None"

definition dom_events :: "node \<Rightarrow> nat list \<Rightarrow> dom_event \<Rightarrow> event list" where
  "dom_events n p ev = (case bubble n p of None \<Rightarrow> [] | Some hs \<Rightarrow> List.map_filter (\<lambda>h. fire h ev) hs)"

fun node_at :: "node \<Rightarrow> nat list \<Rightarrow> node option" where
  "node_at n [] = Some n"
| "node_at (Elem t as hs cs) (i # p) = (if i < length cs then node_at (cs ! i) p else None)"
| "node_at (Text s) (i # p) = None"

fun texts :: "node \<Rightarrow> string list" where
  "texts (Text s) = [s]"
| "texts (Elem t as hs cs) = concat (map texts cs)"

fun listeners :: "node \<Rightarrow> (string \<times> action) list" where
  "listeners (Text s) = []"
| "listeners (Elem t as hs cs) = hs @ concat (map listeners cs)"

fun attr :: "string \<Rightarrow> node \<Rightarrow> string option" where
  "attr k (Elem t as hs cs) = map_of as k"
| "attr k (Text s) = None"

subsection \<open>The current revision's page (lines 123--242)\<close>

definition cloud_title :: string where
  "cloud_title = map char_of [226::nat, 152, 129, 239, 184, 143] @ '' MakeCloud''"

definition subtitle :: string where
  "subtitle = ''Your AI-powered Cloud Assistant''"

definition mono_style :: string where
  "mono_style = ''fontFamily: 'IBM Plex Mono', monospace''"

definition sidebar :: "bool \<Rightarrow> node" where
  "sidebar d =
     Elem ''aside''
       [(''className'', ''w-16 flex flex-col items-center space-y-4 py-4 '' @
                        (if d then ''bg-gray-800'' else ''bg-blue-100''))] []
       [Elem ''button'' [(''className'', ''p-2 rounded hover:bg-gray-700 focus:outline-none'')] []
          [Elem ''DocumentIcon'' [(''className'', ''h-6 w-6 text-blue-400'')] [] []],
        Elem ''button'' [(''className'', ''p-2 rounded hover:bg-gray-700 focus:outline-none'')] []
          [Elem ''ComputerDesktopIcon'' [(''className'', ''h-6 w-6 text-green-400'')] [] []],
        Elem ''button'' [(''className'', ''p-2 rounded hover:bg-gray-700 focus:outline-none'')] []
          [Elem ''Cog6ToothIcon'' [(''className'', ''h-6 w-6 text-red-400'')] [] []]]"

definition theme_icon :: "bool \<Rightarrow> node" where
  "theme_icon d =
     (if d then Elem ''SunIcon'' [(''className'', ''h-5 w-5 text-yellow-400'')] [] []
      else Elem ''MoonIcon'' [(''className'', ''h-5 w-5 text-indigo-600'')] [] [])"

definition page_header :: "bool \<Rightarrow> node" where
  "page_header d =
     Elem ''header'' [(''className'', ''flex justify-between items-center mb-4'')] []
       [Elem ''div'' [] []
          [Elem ''h1'' [(''className'', ''text-lg font-bold'')] [] [Text cloud_title],
           Elem ''p'' [(''className'', ''text-sm'')] [] [Text subtitle]],
        Elem ''button'' [(''className'', ''p-2 rounded-full border focus:outline-none'')]
          [(''onClick'', ToggleThemeProp)] [theme_icon d]]"

definition message_line :: "bool \<Rightarrow> nat \<times> string \<Rightarrow> node" where
  "message_line d il =
     Elem ''div''
       [(''key'', nat_to_str (fst il)), (''className'', if d then ''text-gray-300'' else ''text-gray-600''),
        (''style'', mono_style)] []
       [Text (snd il)]"

definition messages :: "ui \<Rightarrow> node" where
  "messages s =
     Elem ''div'' [(''className'', ''flex-grow overflow-y-auto mb-4'')] []
       (map (message_line (isDarkMode s)) (enumerate 0 (lines s)) @
        [Elem ''div'' [(''ref'', ''terminalRef'')] [] []])"

definition input_row :: "ui \<Rightarrow> node" where
  "input_row s =
     (let d = isDarkMode s in
      Elem ''div'' [(''className'', ''flex items-center space-x-2'')] []
        [Elem ''span''
           [(''className'', ''text-gray-500 mr-2 '' @ (if d then ''text-gray-400'' else ''text-gray-700'')),
            (''style'', mono_style)] []
           [Text ''>''],
         Elem ''input''
           [(''type'', ''text''), (''value'', input s),
            (''className'', ''flex-grow p-2 rounded-lg focus:outline-none '' @
               (if d then ''bg-gray-800 text-gray-200 border-gray-700''
                else ''bg-white text-gray-800 border-gray-300'')),
            (''placeholder'', ''Type your command...''), (''style'', mono_style)]
           [(''onChange'', SetInputFromTarget), (''onKeyDown'', ExecuteOnEnter)] [],
         Elem ''button''
           [(''className'', ''px-4 py-2 rounded font-bold '' @
               (if d then ''bg-indigo-500 hover:bg-indigo-600 text-white''
                else ''bg-blue-500 hover:bg-blue-600 text-white''))]
           [(''onClick'', ExecuteOnClick)] [Text ''Run'']])"

definition terminal_content :: "ui \<Rightarrow> node" where
  "terminal_content s =
     Elem ''div''
       [(''className'', ''flex flex-col flex-grow p-4 '' @
           (if isDarkMode s then ''bg-gray-900 text-gray-200'' else ''bg-gray-100 text-gray-800'')),
        (''style'', mono_style @ ''; whiteSpace: pre-wrap'')] []
       [page_header (isDarkMode s), messages s, input_row s]"

definition terminal_box :: "ui \<Rightarrow> node" where
  "terminal_box s =
     Elem ''div'' [(''className'', ''flex rounded-lg overflow-hidden shadow-lg max-w-4xl bg-opacity-100 border border-gray-600'')] []
       [sidebar (isDarkMode s), terminal_content s]"

definition render :: "ui \<Rightarrow> node" where
  "render s =
     Elem ''div''
       [(''className'', ''relative w-full h-screen flex justify-center items-center transition-colors duration-500 '' @
           (if isDarkMode s then ''bg-black text-white'' else ''bg-white text-black'')),
        (''style'', ''backgroundImage: url('https://www.transparenttextures.com/patterns/cartographer.png'); '' @
           ''backgroundRepeat: repeat; backgroundSize: auto; animation: moveBackground 30s linear infinite'')] []
       [terminal_box s]"

text \<open>Paths of the interactive elements in \<^const>\<open>render\<close>.\<close>

definition theme_button_path :: "nat list" where "theme_button_path = [0, 1, 0, 1]"
definition input_path :: "nat list" where "input_path = [0, 1, 2, 1]"
definition run_button_path :: "nat list" where "run_button_path = [0, 1, 2, 2]"

subsection \<open>The older revision's page (lines 132--198)\<close>

definition mono_style_v1 :: string where
  "mono_style_v1 = ''fontFamily: IBM Plex Mono, monospace''"

definition render_v1 :: "ui \<Rightarrow> node" where
  "render_v1 s =
     (let d = isDarkMode s;
          field = (if d then ''bg-black text-gray-200 border-gray-700'' else ''bg-white text-gray-800 border-gray-300'') in
      Elem ''div''
        [(''className'', ''fade-in relative w-full h-screen flex flex-col justify-center items-center transition-colors duration-500 '' @
            (if d then ''bg-black text-white'' else ''bg-white text-black''))] []
        [Elem ''header'' [(''className'', ''w-full max-w-2xl flex justify-between items-center px-4 py-2 border-b'')] []
           [Elem ''div'' [(''className'', ''flex items-center space-x-2'')] []
              [Elem ''span'' [(''className'', ''text-lg font-bold'')] [] [Text cloud_title],
               Elem ''span'' [(''className'', ''text-sm'')] [] [Text subtitle]],
            Elem ''button'' [(''className'', ''p-2 rounded-full border focus:outline-none'')]
              [(''onClick'', ToggleThemeProp)]
              [if d then Elem ''Sun'' [(''className'', ''h-5 w-5 text-yellow-400'')] [] []
               else Elem ''Moon'' [(''className'', ''h-5 w-5 text-indigo-600'')] [] []]],
         Elem ''div''
           [(''className'', ''w-full max-w-2xl flex-grow p-6 overflow-y-auto border rounded-lg '' @ field),
            (''style'', mono_style_v1 @ ''; whiteSpace: pre-wrap'')] []
           (map (\<lambda>il. Elem ''div'' [(''key'', nat_to_str (fst il))] [] [Text (snd il)]) (enumerate 0 (lines s)) @
            [Elem ''div'' [(''ref'', ''terminalRef'')] [] []]),
         Elem ''div'' [(''className'', ''w-full max-w-2xl flex items-center px-4 py-2 border-t '' @ field)] []
           [Elem ''span'' [(''className'', ''text-gray-500 mr-2'')] [] [Text ''>''],
            Elem ''input''
              [(''type'', ''text''), (''value'', input s),
               (''className'', ''flex-grow px-4 py-2 rounded-lg focus:outline-none '' @ field),
               (''placeholder'', ''Type your command...''), (''style'', mono_style_v1)]
              [(''onChange'', SetInputFromTarget), (''onKeyDown'', ExecuteOnEnter)] []]])"

definition theme_button_path_v1 :: "nat list" where "theme_button_path_v1 = [0, 1]"
definition input_path_v1 :: "nat list" where "input_path_v1 = [2, 1]"

subsection \<open>The page in the event loop\<close>

text \<open>
  A DOM event on the page the current state renders: the runtime events its
  listeners produce, run in bubbling order.
\<close>

definition dom_step :: "world \<Rightarrow> nat list \<Rightarrow> dom_event \<Rightarrow> world" where
  "dom_step w p ev = run w (dom_events (render (view w)) p ev)"

definition dom_step_v1 :: "world \<Rightarrow> nat list \<Rightarrow> dom_event \<Rightarrow> world" where
  "dom_step_v1 w p ev = run w (dom_events (render_v1 (view w)) p ev)"

subsection \<open>Facts about the page\<close>

lemma texts_message_lines:
  "concat (map (texts \<circ> message_line d) (enumerate n ls)) = ls"
  by (induction ls arbitrary: n) (simp_all add: message_line_def)

lemma listeners_message_lines:
  "concat (map (listeners \<circ> message_line d) (enumerate n ls)) = []"
  by (induction ls arbitrary: n) (simp_all add: message_line_def)

lemma texts_messages: "texts (messages s) = lines s"
  by (simp add: messages_def texts_message_lines)

lemma listeners_messages: "listeners (messages s) = []"
  by (simp add: messages_def listeners_message_lines)

subsection \<open>The rendered tree\<close>

lemmas page_defs = terminal_box_def terminal_content_def sidebar_def page_header_def input_row_def theme_icon_def

lemma texts_render_v1: "texts (render_v1 s) = [cloud_title, subtitle] @ lines s @ [''>'']"
proof -
  have "concat (map (texts \<circ> (\<lambda>il. Elem ''div'' [(''key'', nat_to_str (fst il))] [] [Text (snd il)])) (enumerate n ls)) = ls" for n ls
    by (induction ls arbitrary: n) simp_all
  then show ?thesis by (simp add: render_v1_def Let_def)
qed

lemma listeners_render_v1:
  "listeners (render_v1 s) =
     [(''onClick'', ToggleThemeProp), (''onChange'', SetInputFromTarget), (''onKeyDown'', ExecuteOnEnter)]"
proof -
  have "concat (map (listeners \<circ> (\<lambda>il. Elem ''div'' [(''key'', nat_to_str (fst il))] [] [Text (snd il)])) (enumerate n ls)) = []" for n ls
    by (induction ls arbitrary: n) simp_all
  then show ?thesis by (simp add: render_v1_def Let_def)
qed

lemma bubble_listeners: "bubble n p = Some hs \<Longrightarrow> set hs \<subseteq> set (listeners n)"
proof (induction n p arbitrary: hs rule: bubble.induct)
  case (2 t as hs' cs i p)
  then obtain l where "i < length cs" "bubble (cs ! i) p = Some l" "hs = l @ hs'"
    by (auto split: if_splits)
  with 2 show ?case by (fastforce simp: nth_mem)
qed auto

lemma dom_events_from_listeners:
  "e \<in> set (dom_events n p ev) \<Longrightarrow> \<exists>h \<in> set (listeners n). fire h ev = Some e"
proof -
  assume "e \<in> set (dom_events n p ev)"
  then obtain hs h where "bubble n p = Some hs" "h \<in> set hs" "fire h ev = Some e"
    by (cases "bubble n p") (auto simp: dom_events_def in_set_map_filter simp del: fire.simps)
  then show ?thesis using bubble_listeners by blast
qed

lemma bubble_input: "bubble (render s) input_path = Some [(''onChange'', SetInputFromTarget), (''onKeyDown'', ExecuteOnEnter)]"
  by (simp add: render_def Let_def input_path_def page_defs)

lemma bubble_run: "bubble (render s) run_button_path = Some [(''onClick'', ExecuteOnClick)]"
  by (simp add: render_def Let_def run_button_path_def page_defs)

lemma bubble_run_label: "bubble (render s) (run_button_path @ [0]) = Some [(''onClick'', ExecuteOnClick)]"
  by (simp add: render_def Let_def run_button_path_def page_defs)

lemma bubble_theme: "bubble (render s) theme_button_path = Some [(''onClick'', ToggleThemeProp)]"
  by (simp add: render_def Let_def theme_button_path_def page_defs)

lemma bubble_theme_icon: "bubble (render s) (theme_button_path @ [0]) = Some [(''onClick'', ToggleThemeProp)]"
  by (simp add: render_def Let_def theme_button_path_def page_defs)

lemma node_at_input:
  "Option.bind (node_at (render s) input_path) (attr ''value'') = Some (input s)"
  by (simp add: render_def Let_def input_path_def page_defs)

lemma bubble_input_v1:
  "bubble (render_v1 s) input_path_v1 = Some [(''onChange'', SetInputFromTarget), (''onKeyDown'', ExecuteOnEnter)]"
  by (simp add: render_v1_def Let_def input_path_v1_def)

lemma dom_events_at:
  "bubble n p = Some hs \<Longrightarrow> dom_events n p ev = List.map_filter (\<lambda>h. fire h ev) hs"
  by (simp add: dom_events_def)

lemmas dom_step_simps = dom_step_def dom_events_at List.map_filter_simps

text \<open>Where a dispatched event can find listeners on the current page.\<close>

lemma bubble_Elem_cases:
  "bubble (Elem t as hs cs) p = Some l \<Longrightarrow>
     (p = [] \<and> l = hs) \<or> (\<exists>i p' l'. p = i # p' \<and> i < length cs \<and> bubble (cs ! i) p' = Some l' \<and> l = l' @ hs)"
  by (cases p) (auto split: if_splits)

lemma bubble_Text_Some: "bubble (Text x) p = Some l \<Longrightarrow> p = [] \<and> l = []"
  by (cases p) auto

lemma bubble_quiet: "listeners n = [] \<Longrightarrow> bubble n p = Some hs \<Longrightarrow> hs = []"
  using bubble_listeners by fastforce

lemma bubble_leaf: "bubble (Elem t as hs []) p = Some l \<Longrightarrow> p = [] \<and> l = hs"
  by (cases p) auto

lemma bubble_theme_icon_Some: "bubble (theme_icon d) p = Some l \<Longrightarrow> p = [] \<and> l = []"
  by (auto simp: theme_icon_def dest: bubble_leaf split: if_splits)

lemma bubble_header:
  "bubble (page_header d) p = Some l \<Longrightarrow> l = [] \<or> (p \<in> {[1], [1, 0]} \<and> l = [(''onClick'', ToggleThemeProp)])"
  by (auto simp: page_header_def less_Suc_eq
      dest!: bubble_Elem_cases bubble_Text_Some bubble_theme_icon_Some)

lemma bubble_input_row:
  "bubble (input_row s) p = Some l \<Longrightarrow>
     l = [] \<or> (p = [1] \<and> l = [(''onChange'', SetInputFromTarget), (''onKeyDown'', ExecuteOnEnter)]) \<or>
     (p \<in> {[2], [2, 0]} \<and> l = [(''onClick'', ExecuteOnClick)])"
  by (auto simp: input_row_def Let_def less_Suc_eq dest!: bubble_Elem_cases bubble_Text_Some)

lemma bubble_messages: "bubble (messages s) p = Some l \<Longrightarrow> l = []"
  using bubble_quiet listeners_messages by blast

lemma bubble_sidebar: "bubble (sidebar d) p = Some l \<Longrightarrow> l = []"
  using bubble_quiet [of "sidebar d"] by (simp add: sidebar_def)

lemma bubble_content:
  "bubble (terminal_content s) p = Some l \<Longrightarrow>
     l = [] \<or> (p \<in> {[0, 1], [0, 1, 0]} \<and> l = [(''onClick'', ToggleThemeProp)]) \<or>
     (p = [2, 1] \<and> l = [(''onChange'', SetInputFromTarget), (''onKeyDown'', ExecuteOnEnter)]) \<or>
     (p \<in> {[2, 2], [2, 2, 0]} \<and> l = [(''onClick'', ExecuteOnClick)])"
  by (auto simp: terminal_content_def less_Suc_eq
      dest!: bubble_Elem_cases bubble_header bubble_input_row bubble_messages)

lemma bubble_box:
  "bubble (terminal_box s) p = Some l \<Longrightarrow>
     l = [] \<or> (p \<in> {[1, 0, 1], [1, 0, 1, 0]} \<and> l = [(''onClick'', ToggleThemeProp)]) \<or>
     (p = [1, 2, 1] \<and> l = [(''onChange'', SetInputFromTarget), (''onKeyDown'', ExecuteOnEnter)]) \<or>
     (p \<in> {[1, 2, 2], [1, 2, 2, 0]} \<and> l = [(''onClick'', ExecuteOnClick)])"
  by (auto simp: terminal_box_def less_Suc_eq dest!: bubble_Elem_cases bubble_content bubble_sidebar)

lemma bubble_render:
  "bubble (render s) p = Some hs \<Longrightarrow> hs = [] \<or>
    (p \<in> {theme_button_path, theme_button_path @ [0]} \<and> hs = [(''onClick'', ToggleThemeProp)]) \<or>
    (p = input_path \<and> hs = [(''onChange'', SetInputFromTarget), (''onKeyDown'', ExecuteOnEnter)]) \<or>
    (p \<in> {run_button_path, run_button_path @ [0]} \<and> hs = [(''onClick'', ExecuteOnClick)])"
  by (auto simp: render_def theme_button_path_def input_path_def run_button_path_def
      dest!: bubble_Elem_cases bubble_box)

subsection \<open>Properties of the page\<close>

text \<open>
  C20: the page shows the transcript and nothing else that varies: the
  text of the rendered tree, in document order, is the title and
  subtitle, every transcript line once and in order, the prompt and the
  Run label, whatever the theme and the input; the older page shows the
  same transcript, without the Run label.
\<close>

theorem rendered_text_is_transcript:
  "texts (render s) = [cloud_title, subtitle] @ lines s @ [''>'', ''Run''] \<and>
   texts (render_v1 s) = [cloud_title, subtitle] @ lines s @ [''>'']"
  using texts_render_v1 by (simp add: render_def Let_def page_defs texts_messages)

text \<open>
  C21: the page's wiring, exactly: for every element of the page (a path of
  child indices) and every DOM event, the runtime events it produces. A
  change event on the input types its value, Enter there runs the handler,
  a click on the Run button or its label runs the handler, a click on the
  theme button or its icon toggles the theme, and nothing else on the page
  (the sidebar's buttons, the transcript, the other keys) does anything.
\<close>

theorem page_event_wiring:
  "set (dom_events (render s) p ev) =
     (if p = input_path then
        (case ev of Change v \<Rightarrow> {Type v} | KeyDown k \<Rightarrow> (if k = ''Enter'' then {Execute} else {}) | Click \<Rightarrow> {})
      else if p \<in> {run_button_path, run_button_path @ [0]} then (if ev = Click then {Execute} else {})
      else if p \<in> {theme_button_path, theme_button_path @ [0]} then (if ev = Click then {Toggle} else {})
      else {})"
proof (cases "bubble (render s) p")
  case None
  then have "p \<noteq> input_path" "p \<notin> {run_button_path, run_button_path @ [0]}"
    "p \<notin> {theme_button_path, theme_button_path @ [0]}"
    using bubble_input bubble_run bubble_run_label bubble_theme bubble_theme_icon by auto
  then show ?thesis using None by (simp add: dom_events_def)
next
  case (Some hs)
  have paths: "input_path \<notin> {run_button_path, run_button_path @ [0], theme_button_path, theme_button_path @ [0]}"
    "run_button_path \<notin> {theme_button_path, theme_button_path @ [0]}"
    "run_button_path @ [0] \<notin> {theme_button_path, theme_button_path @ [0]}"
    by (simp_all add: input_path_def run_button_path_def theme_button_path_def)
  from bubble_render [OF Some] show ?thesis
  proof (elim disjE conjE)
    assume "hs = []"
    then have "p \<noteq> input_path" "p \<notin> {run_button_path, run_button_path @ [0]}"
      "p \<notin> {theme_button_path, theme_button_path @ [0]}"
      using Some bubble_input bubble_run bubble_run_label bubble_theme bubble_theme_icon by auto
    then show ?thesis using Some \<open>hs = []\<close> by (simp add: dom_events_def List.map_filter_simps)
  qed (use Some paths in \<open>auto simp: dom_events_def List.map_filter_simps split: dom_event.split\<close>)
qed

text \<open>
  C22: the input is a controlled field: a change event carrying a value on
  the input element is the runtime's typing of that value, and the page
  rendered afterwards shows exactly that value in the field.
\<close>

theorem typing_roundtrip:
  "dom_step w input_path (Change v) = world_step w (Type v) \<and>
   Option.bind (node_at (render (view (dom_step w input_path (Change v)))) input_path) (attr ''value'') = Some v"
proof -
  have "dom_step w input_path (Change v) = world_step w (Type v)"
    by (simp add: dom_step_simps bubble_input)
  then show ?thesis by (simp add: node_at_input onChange_def)
qed

text \<open>
  C23: clicking the Run button (or its label, by bubbling) and pressing
  Enter in the input field both run the handler once, and nothing else.
\<close>

theorem run_click_equals_enter:
  "dom_step w run_button_path Click = world_step w Execute \<and>
   dom_step w (run_button_path @ [0]) Click = world_step w Execute \<and>
   dom_step w input_path (KeyDown ''Enter'') = world_step w Execute"
  by (simp add: dom_step_simps bubble_run bubble_run_label bubble_input)

text \<open>
  C24: a key other than Enter pressed in the input field changes nothing.
\<close>

theorem non_enter_keys_ignored:
  assumes "k \<noteq> ''Enter''"
  shows "dom_step w input_path (KeyDown k) = w"
  using assms by (simp add: dom_step_simps bubble_input)

theorem non_enter_keys_ignored_witness: "dom_step world_init input_path (KeyDown ''Tab'') = world_init"
  using non_enter_keys_ignored [of "''Tab''" world_init] by simp

text \<open>
  C25: the theme button (or its icon) flips the theme, and a second click
  restores the world exactly.
\<close>

theorem theme_click_involution:
  "isDarkMode (view (dom_step w theme_button_path Click)) = (\<not> isDarkMode (view w)) \<and>
   dom_step (dom_step w theme_button_path Click) theme_button_path Click = w \<and>
   dom_step w (theme_button_path @ [0]) Click = dom_step w theme_button_path Click"
  by (simp add: dom_step_simps bubble_theme bubble_theme_icon toggleTheme_def)

text \<open>
  C26: the older revision has no Run button: no click anywhere on its page
  runs the handler, only Enter in the input field does.
\<close>

theorem older_page_has_no_click_execute:
  "Execute \<notin> set (dom_events (render_v1 s) p Click) \<and>
   dom_step_v1 w input_path_v1 (KeyDown ''Enter'') = world_step w Execute"
proof
  show "Execute \<notin> set (dom_events (render_v1 s) p Click)"
    using dom_events_from_listeners [of Execute "render_v1 s" p Click] by (auto simp: listeners_render_v1)
  show "dom_step_v1 w input_path_v1 (KeyDown ''Enter'') = world_step w Execute"
    by (simp add: dom_step_v1_def dom_events_at [OF bubble_input_v1] List.map_filter_simps)
qed

end
