(* ===== verification/Transcript.thy ===== *)
theory Transcript
  imports Runtime
begin

text \<open>
  The shape of the transcript. The component writes two kinds of line: its
  own messages, prefixed \<open>MakeCloud: \<close> (\<open>bot_line\<close>, the welcome line,
  the questions, notices and errors), and the echo of an accepted input,
  prefixed \<open>> \<close> (\<open>echo_line\<close>). \<open>transcript_inv\<close> says every line is one of
  the two and the echoes, read back, are exactly the accepted inputs in
  order; it holds in every reachable world, under any interleaving of
  replies.
\<close>

definition is_bot_line :: "string \<Rightarrow> bool" where
  "is_bot_line l \<longleftrightarrow> prefix ''MakeCloud: '' l"

definition is_echo_line :: "string \<Rightarrow> bool" where
  "is_echo_line l \<longleftrightarrow> prefix ''> '' l"

definition transcript_inv :: "world \<Rightarrow> bool" where
  "transcript_inv w \<longleftrightarrow>
     list_all (\<lambda>l. is_bot_line l \<or> is_echo_line l) (lines (view w)) \<and>
     map (drop 2) (filter is_echo_line (lines (view w))) = accepted w"

subsection \<open>The lines each code path writes\<close>

lemma bot_line_kind [simp]: "is_bot_line (bot_line x) \<and> \<not> is_echo_line (bot_line x)"
  by (simp add: is_bot_line_def is_echo_line_def bot_line_def)

lemma echo_line_kind [simp]: "is_echo_line (echo_line x) \<and> drop 2 (echo_line x) = x"
  by (simp add: is_echo_line_def echo_line_def)

lemma welcome_line_kind: "is_bot_line welcome_line \<and> \<not> is_echo_line welcome_line"
  by (simp add: is_bot_line_def is_echo_line_def welcome_line_def)

lemma bot_line_not_echo: "is_bot_line l \<Longrightarrow> \<not> is_echo_line l"
  by (auto simp: is_bot_line_def is_echo_line_def prefix_def)

lemma resume_bot_lines: "list_all is_bot_line (appended_lines (resume r out))"
proof (cases r)
  case (GetInfo t)
  then show ?thesis
    by (cases "fetch_questions out")
       (auto simp: fetch_questions_cont_def fetch_error_line_def split: sum.split)
next
  case (GenerateScript t qs as)
  then show ?thesis
    by (simp add: submit_cont_def submit_result_line_def submit_error_line_def success_line_def
        split: sum.split)
qed

lemma answer_branch_bot_lines: "list_all is_bot_line (appended_lines (fst (answer_branch s)))"
  by (simp add: answer_branch_def Let_def sending_line_def split: sum.split)

lemma handleExecute_lines:
  assumes "\<not> blank (input s)"
  shows "\<exists>bs. appended_lines (fst (handleExecute s)) = echo_line (input s) # bs \<and> list_all is_bot_line bs"
proof (cases "resourceType s = []")
  case True
  then show ?thesis using assms by (simp add: handleExecute_first)
next
  case False
  then show ?thesis
    using assms answer_branch_bot_lines [of s] by (simp add: handleExecute_answer)
qed

lemma accepted_start_handler:
  "accepted (start_handler w) = accepted w @ (if blank (input (view w)) then [] else [input (view w)])"
  by (simp add: start_handler_def Let_def split: prod.split seg_end.split)

lemma bot_lines_no_echo: "list_all is_bot_line bs \<Longrightarrow> filter is_echo_line bs = []"
  by (induction bs) (auto dest: bot_line_not_echo)

subsection \<open>The invariant\<close>

lemma transcript_inv_init: "transcript_inv world_init"
  using welcome_line_kind by (simp add: transcript_inv_def world_init_def ui_init_def)

lemma transcript_inv_bot:
  assumes "transcript_inv w" "list_all is_bot_line bs"
    and "lines (view w') = lines (view w) @ bs" "accepted w' = accepted w"
  shows "transcript_inv w'"
  using assms bot_lines_no_echo [OF assms(2)] by (auto simp: transcript_inv_def list_all_iff)

lemma transcript_inv_echo:
  assumes "transcript_inv w" "list_all is_bot_line bs"
    and "lines (view w') = lines (view w) @ echo_line x # bs" "accepted w' = accepted w @ [x]"
  shows "transcript_inv w'"
  using assms bot_lines_no_echo [OF assms(2)] by (auto simp: transcript_inv_def list_all_iff)

lemma transcript_inv_Execute:
  assumes "transcript_inv w"
  shows "transcript_inv (world_step w Execute)"
proof (cases "blank (input (view w))")
  case True
  then show ?thesis
    using transcript_inv_bot [OF assms, of "[]"] by (simp add: view_start_handler accepted_start_handler)
next
  case False
  then obtain bs where "appended_lines (fst (handleExecute (view w))) = echo_line (input (view w)) # bs"
    and "list_all is_bot_line bs"
    using handleExecute_lines by blast
  with False show ?thesis
    by (intro transcript_inv_echo [OF assms]) (simp_all add: view_start_handler accepted_start_handler lines_apply_updates)
qed

lemma transcript_inv_step:
  assumes "transcript_inv w"
  shows "transcript_inv (world_step w e)"
proof (cases e)
  case (Settle i out)
  then show ?thesis
    using assms transcript_inv_bot [OF assms resume_bot_lines [of "inflight w ! i" out]]
    by (simp add: lines_apply_updates)
qed (use assms transcript_inv_Execute in \<open>auto simp: transcript_inv_def onChange_def toggleTheme_def\<close>)

lemma reachable_transcript_inv: "reachable w \<Longrightarrow> transcript_inv w"
  by (induction rule: reachable.induct) (auto intro: transcript_inv_init transcript_inv_step)

subsection \<open>The transcript in every run\<close>

text \<open>
  C27: in every reachable world, under any interleaving of typing,
  submitting and network replies, every transcript line is either a message
  of the component (prefixed \<open>MakeCloud: \<close>) or an echoed input (prefixed
  \<open>> \<close>), and the echoed lines with their prefix removed are exactly the
  accepted inputs, in the order they were accepted.
\<close>

theorem transcript_lines_typed:
  assumes "reachable w"
  shows "(\<forall>l \<in> set (lines (view w)). is_bot_line l \<or> is_echo_line l) \<and>
    map (drop 2) (filter is_echo_line (lines (view w))) = accepted w"
  using reachable_transcript_inv [OF assms] by (simp add: transcript_inv_def list_all_iff)

theorem transcript_lines_typed_witness:
  "map (drop 2) (filter is_echo_line (lines (view (run world_init
      [Type ''S3 bucket'', Execute, Type ''  '', Execute, Type ''> us-east-1'', Execute])))) =
   [''S3 bucket'', ''> us-east-1'']"
proof -
  let ?w = "run world_init [Type ''S3 bucket'', Execute, Type ''  '', Execute, Type ''> us-east-1'', Execute]"
  have r: "reachable ?w" by (rule reachable_run [OF reachable.init])
  have a: "accepted ?w = [''S3 bucket'', ''> us-east-1'']" by (simp add: run_eval_defs)
  show ?thesis using transcript_lines_typed [OF r] a by simp
qed

end
