(* ===== verification/Spec2Isabelle.thy ===== *)
theory Spec2Isabelle
  imports Session_Spec Controller_V1 Render Transcript
begin

text \<open>
  \<^bold>\<open>MakeCloud: a verification development of the terminal chatbot component.\<close>

  \<^bold>\<open>The program.\<close> The repository holds two revisions of one React
  component, \<open>TerminalChatbot\<close>, in
  \<open>src/.history/app/(preview)/page_20250119073951.tsx\<close> (current) and
  \<open>page_20250119072805.tsx\<close> (older). Its state is seven \<open>useState\<close> hooks
  (transcript lines, input field, theme, resource type, answers, question
  index, question list). Its behaviour is one asynchronous handler,
  \<open>handleExecute\<close> (current revision lines 28--119), run on Enter or on the
  Run button and never awaited: the first non-blank input is the resource
  type and triggers a \<open>GET\<close> of a question list; every later non-blank input
  is an answer, which either shows the next question or, at the last
  question, \<open>POST\<close>s the resource type, questions and answers. The rest
  of each file is the JSX the component renders from its state: the
  transcript, the input field with its \<open>onChange\<close>/\<open>onKeyDown\<close> props, the
  Run button (current revision only) and the theme button.

  \<^bold>\<open>The library.\<close>
  \<^item> \<open>Prelude\<close>: lemma collections, list helpers (\<open>remove_nth\<close> for a
    settled call), transcript prefixes.
  \<^item> \<open>Js_Value\<close>: the JavaScript the handler relies on, from ECMAScript: JSON
    values (\<open>jsval\<close>), exceptions, \<open>trim\<close> as a truth test, template-literal
    conversion, \<open>.length\<close> (throws on \<open>null\<close>) and \<open>[i]\<close>, and
    \<open>js_items\<close>, the strings a value yields when read as the question list
    (an array's string elements, a string's characters). Not repository
    code, so not in the map.
  \<^item> \<open>Ui_State\<close>: the hooks as the record \<open>ui\<close>, the setter calls as the
    datatype \<open>update\<close>, React's per-hook queue as the left fold
    \<open>apply_updates\<close>; \<open>toggleTheme\<close>, \<open>onChange\<close>.
  \<^item> \<open>Gateway\<close>: the two \<open>fetch\<close> calls as data (\<open>request\<close>: URL with
    \<open>encodeURIComponent\<close>, method, body) and the network's answer as an
    explicit input (\<open>fetch_outcome\<close>); \<open>check_ok\<close> (the \<open>!response.ok\<close>
    throw), \<open>read_json\<close>, \<open>fetch_questions\<close>, \<open>submit_answers\<close>; the server's
    URL decoding, with the URL round trip.
  \<^item> \<open>Controller\<close>: \<open>handleExecute\<close> cut at its \<open>await\<close>s into a synchronous
    part (\<open>resource_branch\<close>, \<open>answer_branch\<close>, ending \<open>Finished\<close>,
    \<open>Awaiting\<close> a request or \<open>Uncaught\<close>) and continuations
    (\<open>fetch_questions_cont\<close> with its \<open>catch\<close>/\<open>finally\<close>, \<open>submit_cont\<close>);
    \<open>handle\<close> runs it to completion against a gateway.
  \<^item> \<open>Controller_V1\<close>: the older revision's handler and how it reports a
    submission.
  \<^item> \<open>Runtime\<close>: the component as it runs: the \<open>world\<close> (UI state, calls
    in flight, requests sent, escaped exceptions, and the accepted inputs as
    a history variable), events (typing, Execute, Toggle, any pending call
    settling, in any order), \<open>world_step\<close>, \<open>run\<close>, \<open>reachable\<close>, the
    invariant \<open>world_inv\<close> of every reachable world, and the sequential
    \<open>session\<close> the spec assumes.
  \<^item> \<open>Conversation\<close>: whole sequential conversations: the complete one and
    the boundary cases, stated for any question value whose items read as
    strings.
  \<^item> \<open>Session_Spec\<close>: the spec's own controller (sections 3, 4.1, 4.2, 9):
    phases \<open>AwaitingResourceType\<close>, \<open>AwaitingAnswers\<close>, \<open>Submitting\<close>,
    \<open>Done\<close> and \<open>Stalled\<close>, the gateway's two operations with
    \<open>NetworkError\<close>/\<open>DecodeError\<close>, one transition per input, and
    \<open>spec_run\<close> over a session; the abstraction of the code's state and
    gateway onto it, and the simulation.
  \<^item> \<open>Render\<close>: the JSX of both revisions (\<open>render\<close> with its parts
    \<open>terminal_box\<close>, \<open>terminal_content\<close>, \<open>sidebar\<close>, \<open>page_header\<close>,
    \<open>messages\<close>, \<open>input_row\<close>, current lines 123--242; \<open>render_v1\<close>, older
    lines 132--198) as an element tree \<open>node\<close> with tags, attributes and
    event props; DOM events dispatched at a path of child indices with
    bubbling (\<open>bubble\<close>, \<open>dom_events\<close>, from the DOM and React semantics,
    not mapped), the props' arrow functions (\<open>act\<close>) turned into runtime
    events, and \<open>dom_step\<close>, the page composed with \<open>world_step\<close>.
  \<^item> \<open>Transcript\<close>: the two kinds of transcript line and the invariant
    \<open>transcript_inv\<close> of every reachable world, by rule induction.

  \<^bold>\<open>Modelling choices.\<close> Each event's state updates are committed before the
  next event, so a new handler run captures the current state; only the
  settling of network calls is interleaved, which is where the component's
  races are. The network and the server are inputs, not axioms: every
  theorem holds for every answer they can give, or names the answers it
  assumes. A response body is the value \<open>response.json()\<close> yields or the
  message it rejects with, a request body the value \<open>JSON.stringify\<close>
  serialises: the JSON text format belongs to the JavaScript library, not
  to the component. Characters are Latin-1 code units, JSON numbers
  integers; an object's \<open>length\<close> is its numeric \<open>length\<close> member (of
  duplicate keys the last, as \<open>JSON.parse\<close> keeps it), a simplification
  of ToNumber. The component's code has no loop, so there is no fuel and
  no termination or liveness claim: every definition is total and
  executable, and the witnesses evaluate concrete runs by \<open>simp\<close>.

  \<^bold>\<open>What is shown.\<close> One input: echo first (C2), blank input ignored
  (C3), the success line hides the result (C17). Every reachable world of
  the interleaving semantics: the answers are exactly the inputs accepted
  after the first (C4), one question fetch and then only submissions (C5),
  the question index bound (C7), the transcript append-only (C14), every
  transcript line a component message or an echo, the echoes being the
  accepted inputs (C27). Conversations: the complete one (C1), an empty
  list or a failed fetch making the next input a submission (C10, C11),
  re-submission after the end (C9), a string as question list asked
  character by character (C19). Races: an answer posted before the
  questions arrive (C8), typed text erased by the fetch's \<open>finally\<close> (C12).
  Error paths: a failed submission keeps the session (C13), a \<open>null\<close> list
  stalls it for good (C15), the error lines the \<open>catch\<close> blocks write
  (C28). The URL round trip for Latin-1 resource types (C6); the older
  revision's report of an accepted submission (C16); the code refines the
  spec's controller on every session whose inputs arrive where the spec
  defines a transition (C18); where the spec defines none (after a failed
  or empty fetch, after the submission) the code's behaviour is what
  C9--C11 state. The page: its text is the transcript framed by fixed
  chrome (C20), each element's events are exactly the runtime events its
  props call, and nothing else on the page does anything (C21), the input
  field is controlled (C22), Run and Enter are the same handler call (C23),
  other keys do nothing (C24), the theme button is an involution (C25),
  the older page has no click that runs the handler (C26).

  \<^bold>\<open>Not modelled.\<close> What the Tailwind classes, the icons and the CSS
  animation look like (the model keeps them as the strings and elements the
  JSX produces); the \<open><style jsx>\<close> block, which styled-jsx moves out of the
  DOM; the scroll effect on \<open>lines\<close>, which only moves the scroll position;
  \<open>console.error\<close>; the server's script generation; the JSON text format
  (\<open>JSON.parse\<close>, \<open>JSON.stringify\<close>), a library the component only calls.
  Characters outside Latin-1: the title's emoji is kept as its UTF-8 bytes.

  \<^bold>\<open>Further work.\<close> Question lists that are JSON objects (members read by
  numeric key); a simulation of the interleaving runtime against a spec
  with the busy flag of section 9.
\<close>

end
